theory Spec2Isabelle
  imports Complex_Main "HOL-Library.Sublist"
begin

section \<open>Exceptions and Python arithmetic\<close>

text \<open>
  The exceptions that the modelled code can raise. \<open>SystemExit\<close> is what argparse
  raises (with status 2) when an argument is not among the declared choices.
\<close>

datatype error =
    SystemExit int
  | AssertionError
  | NotImplementedError
  | ValueError
  | KeyError
  | ZeroDivisionError
  | StopIteration
  | IndexError

text \<open>
  Python's \<open>a % b\<close> on unbounded integers: the result takes the sign of the divisor
  (as \<open>mod\<close> on \<open>int\<close> does), and a zero divisor raises.
\<close>

definition py_mod :: "int \<Rightarrow> int \<Rightarrow> error + int" where
  "py_mod a b = (if b = 0 then Inl ZeroDivisionError else Inr (a mod b))"

section \<open>OpenFold: command-line configuration (\<open>parse_args\<close>)\<close>

text \<open>
  The argument namespace of \<open>train.py\<close>, restricted to the fields that steer control flow.
  Paths, date filters, learning-rate values and worker counts are passed through to
  collaborators unchanged and are left out. Floats are a type parameter \<open>'f\<close>.
\<close>

record 'f args =
  target_avg_lddt_ca_value :: 'f
  initialize_parameters_from :: "string option"
  precision :: string
  seed :: string
  num_train_iters :: int
  log_every_iters :: int
  checkpoint_every_iters :: int
  keep_last_checkpoints :: int
  val_every_iters :: int
  keep_best_checkpoints :: int
  keep_val_checkpoints :: bool
  device_batch_size :: int
  warmup_lr_length :: int
  init_lr_length :: int
  gradient_clipping :: bool
  clip_grad_max_norm :: 'f
  gradient_accumulation_iters :: int
  save_process_logs :: bool
  distributed :: bool

definition precision_choices :: "string list" where
  "precision_choices = [''fp32'', ''tf32'', ''bf16'', ''fp16'', ''amp'']"

text \<open>
  \<open>parse_args\<close>: the choices check of argparse, then the assertions in source order.
  Every \<open>%\<close> here has a divisor that an earlier test has made positive, so no
  \<open>ZeroDivisionError\<close> is reachable and \<open>mod\<close> is Python's \<open>%\<close>.
\<close>

definition parse_args :: "'f args \<Rightarrow> error + 'f args" where
  "parse_args a =
    (if precision a \<notin> set precision_choices then Inl (SystemExit 2)
     else if checkpoint_every_iters a > 0
             \<and> val_every_iters a mod checkpoint_every_iters a \<noteq> 0 then Inl AssertionError
     else if log_every_iters a > 0
             \<and> val_every_iters a mod log_every_iters a \<noteq> 0 then Inl AssertionError
     else if log_every_iters a > 0 \<and> checkpoint_every_iters a > 0
             \<and> checkpoint_every_iters a mod log_every_iters a \<noteq> 0 then Inl AssertionError
     else if \<not> gradient_accumulation_iters a \<ge> 1 then Inl AssertionError
     else if num_train_iters a mod gradient_accumulation_iters a \<noteq> 0 then Inl AssertionError
     else if val_every_iters a mod gradient_accumulation_iters a \<noteq> 0 then Inl AssertionError
     else if checkpoint_every_iters a mod gradient_accumulation_iters a \<noteq> 0
       then Inl AssertionError
     else if log_every_iters a mod gradient_accumulation_iters a \<noteq> 0 then Inl AssertionError
     else if warmup_lr_length a mod gradient_accumulation_iters a \<noteq> 0 then Inl AssertionError
     else if init_lr_length a mod gradient_accumulation_iters a \<noteq> 0 then Inl AssertionError
     else Inr a)"

text \<open>The argparse defaults, with floats read as reals.\<close>

definition default_args :: "real args" where
  "default_args = \<lparr>
     target_avg_lddt_ca_value = 0.8,
     initialize_parameters_from = None,
     precision = ''tf32'',
     seed = ''1234567890'',
     num_train_iters = 80000,
     log_every_iters = -1,
     checkpoint_every_iters = 0,
     keep_last_checkpoints = 0,
     val_every_iters = 200,
     keep_best_checkpoints = 0,
     keep_val_checkpoints = False,
     device_batch_size = 1,
     warmup_lr_length = 1000,
     init_lr_length = 60000,
     gradient_clipping = False,
     clip_grad_max_norm = 0.1,
     gradient_accumulation_iters = 1,
     save_process_logs = False,
     distributed = False \<rparr>"

section \<open>OpenFold: the validation runner (\<open>validation\<close>)\<close>

text \<open>
  A module carries its mode flag (\<open>.training\<close>) and its parameters. A validation batch
  carries its \<open>id\<close> entry (a list of id tuples, whose components are integers or
  strings) and its tensors. A dataloader has the length that \<open>len\<close> reports and the
  batches that its iterator yields; \<open>next\<close> on an exhausted iterator raises.
\<close>

record 't module =
  is_training :: bool
  weights :: 't

datatype pyval = PInt int | PStr string

record 'b val_batch =
  batch_id :: "pyval list list"
  batch_tensors :: 'b

record 'b dataloader =
  dl_len :: nat
  dl_batches :: "'b val_batch list"

text \<open>
  One validation record: the \<open>lddt_ca\<close> metric and the two id components. The
  \<open>duration\<close> entry is wall-clock time and is not modelled.
\<close>

record 'f val_metrics =
  lddt_ca :: 'f
  val_index :: pyval
  pdb_chain_id :: pyval

text \<open>Tuple indexing with a non-negative index.\<close>

definition tuple_get :: "pyval list \<Rightarrow> nat \<Rightarrow> error + pyval" where
  "tuple_get t i = (if i < length t then Inr (t ! i) else Inl IndexError)"

text \<open>
  What the program observably does, in order. \<open>ModuleCall g\<close> is a forward pass of the
  network, \<open>g\<close> telling whether gradients were enabled around the call.
\<close>

datatype msg =
    MsgInitDistributed int
  | MsgSingleGPU
  | MsgTraining int
  | MsgValidationStart
  | MsgValidationLog int

datatype device = Cuda int

datatype 'f event =
    InitProcessGroup
  | Print msg
  | SetDevice device
  | DisableTF32
  | EnableTF32
  | CreateConfig
  | CreateTrainingDataset
  | CreateValidationDataset
  | CreateAlphaFold int
  | CreateLoss
  | CreateOptimizer
  | InitializeParameters string
  | CreateSWA
  | ResumeFromLatestCheckpoint
  | WrapDistributedDataParallel
  | CreateTrainingSampler int int
  | CreateValidationSampler
  | CreateTrainingDataloader int int
  | CreateValidationDataloader
  | CreateLRScheduler int
  | ManualSeed int
  | NextTrainBatch
  | ModuleCall bool
  | ZeroGrad
  | Backward
  | ClipGradNorm 'f
  | OptimizerStep
  | SwaUpdate
  | DistReduceLossesAvg bool
  | AppendProcessLog int
  | AppendTrainLog int
  | SaveProcessLogs
  | ClearProcessLogs
  | SaveTrainLogs
  | ClearTrainLogs
  | DistGatherValMetrics bool
  | SaveValidationLog int 'f nat
  | BroadcastStopFlag int
  | GcCollect
  | EmptyCache
  | SaveCheckpoint int bool "'f option"
  | LRSchedulerStep
  | Barrier

text \<open>
  The collaborators of \<open>train.py\<close> whose code is elsewhere (torch, pandas, the model, the
  loss, the sampler, the checkpoint store, the collectives), as parameters. Tensor
  collections are \<open>'t\<close>, batches \<open>'b\<close>, floats \<open>'f\<close>. The types say what each
  operation may touch: \<open>backward_op\<close> reads the parameters and the batch and returns
  the new accumulated gradients, \<open>optimizer_step_op\<close> returns the new optimizer state
  and the new parameters, and so on. \<open>gathered\<close> and \<open>bcast\<close> are what the gather and
  the broadcast deliver to this process at a given iteration.
\<close>

record ('t, 'b, 'f) env =
  get_seed_from_string :: "string \<Rightarrow> int"
  TORCH_SEED_MODULUS :: int
  swa_enabled :: bool
  zero_grad_op :: "'t \<Rightarrow> 't"
  backward_op :: "'t \<Rightarrow> 'b \<Rightarrow> int \<Rightarrow> 't \<Rightarrow> 't"
  clip_grad_norm_op :: "'f \<Rightarrow> 't \<Rightarrow> 't"
  optimizer_step_op :: "'t \<Rightarrow> 't \<Rightarrow> 't \<Rightarrow> 't \<times> 't"
  swa_update_op :: "'t \<Rightarrow> 't \<Rightarrow> 't"
  lddt_ca_metric :: "'t \<Rightarrow> 'b \<Rightarrow> 'f"
  series_mean :: "'f list \<Rightarrow> 'f"
  float_ge :: "'f \<Rightarrow> 'f \<Rightarrow> bool"
  num_prev_iters_resumed :: int
  train_batches :: "int \<Rightarrow> 'b"
  validation_dataloader :: "'b dataloader"
  validation_dataset_len :: nat
  gathered :: "int \<Rightarrow> 'f val_metrics list"
  bcast :: "int \<Rightarrow> int"

text \<open>
  The body of the \<open>for\<close> loop of \<open>validation\<close> after \<open>next\<close> has returned a batch:
  the assertion on the id list, the forward pass and the metric under \<open>no_grad\<close>, then
  the two reads of the id tuple.
\<close>

definition validation_sample ::
  "('t, 'b, 'f) env \<Rightarrow> 't \<Rightarrow> 'b val_batch \<Rightarrow> 'f event list \<times> (error + 'f val_metrics)" where
  "validation_sample env w val_batch =
    (if length (batch_id val_batch) \<noteq> 1 then ([], Inl AssertionError)
     else
       let id_tuple = hd (batch_id val_batch);
           m = lddt_ca_metric env w (batch_tensors val_batch)
       in (case tuple_get id_tuple 1 of
             Inl e \<Rightarrow> ([ModuleCall False], Inl e)
           | Inr vi \<Rightarrow>
             (case tuple_get id_tuple 3 of
                Inl e \<Rightarrow> ([ModuleCall False], Inl e)
              | Inr pc \<Rightarrow>
                ([ModuleCall False],
                 Inr \<lparr>lddt_ca = m, val_index = vi, pdb_chain_id = pc\<rparr>))))"

text \<open>
  \<open>for _ in range(len(validation_dataloader))\<close>: the counter, the rest of the iterator
  and the list built so far.
\<close>

fun validation_loop ::
  "('t, 'b, 'f) env \<Rightarrow> 't \<Rightarrow> nat \<Rightarrow> 'b val_batch list \<Rightarrow> 'f val_metrics list
     \<Rightarrow> 'f event list \<times> (error + 'f val_metrics list)" where
  "validation_loop env w 0 iterator val_metrics_list = ([], Inr val_metrics_list)"
| "validation_loop env w (Suc n) [] val_metrics_list = ([], Inl StopIteration)"
| "validation_loop env w (Suc n) (val_batch # iterator) val_metrics_list =
    (case validation_sample env w val_batch of
       (ev, Inl e) \<Rightarrow> (ev, Inl e)
     | (ev, Inr r) \<Rightarrow>
       (case validation_loop env w n iterator (val_metrics_list @ [r]) of
          (evs, res) \<Rightarrow> (ev @ evs, res)))"

text \<open>
  \<open>validation\<close>: \<open>eval()\<close>, the loop, \<open>train()\<close>. There is no \<open>try\<close>/\<open>finally\<close>: an
  exception leaves the function at once, after \<open>eval()\<close> and before \<open>train()\<close>.
\<close>

definition validation ::
  "('t, 'b, 'f) env \<Rightarrow> 't module \<Rightarrow> 'b dataloader
     \<Rightarrow> 'f event list \<times> 't module \<times> (error + 'f val_metrics list)" where
  "validation env alphafold dl =
    (let m = alphafold\<lparr>is_training := False\<rparr> in
     case validation_loop env (weights m) (dl_len dl) (dl_batches dl) [] of
       (ev, Inl e) \<Rightarrow> (ev, m, Inl e)
     | (ev, Inr val_metrics_list) \<Rightarrow> (ev, m\<lparr>is_training := True\<rparr>, Inr val_metrics_list))"

section \<open>OpenFold: one iteration of the training loop\<close>

text \<open>
  The values that \<open>training\<close> computes once per process at startup, and the state that
  the loop mutates: the live network, its weight-averaged shadow, the optimizer state
  and the gradients accumulated in the parameters' \<open>.grad\<close>.
\<close>

record proc =
  rank :: "int option"
  world_size :: "int option"
  local_rank :: "int option"
  main_rank :: "int option"
  is_main_process :: bool
  device :: device
  global_batch_size :: int

record 't pstate =
  alphafold :: "'t module"
  swa_alphafold :: "'t module"
  optimizer_state :: 't
  accumulated_grads :: 't

datatype outcome = Continue | Break | Raised error

text \<open>
  What the validation block leaves behind for the rest of the iteration:
  \<open>is_validation\<close>, and when it is true the mean metric (bound on the main process
  only) and this process's \<open>stop_training_flag\<close> before the broadcast.
\<close>

datatype 'f val_outcome =
    NotValidation
  | Validated (val_avg_lddt_ca: "'f option") (stop_training_flag: int)
where
  "val_avg_lddt_ca NotValidation = None"
| "stop_training_flag NotValidation = 0"

definition is_logging_enabled :: "'f args \<Rightarrow> bool" where
  "is_logging_enabled a = (log_every_iters a > 0)"

definition is_main_process_and_logging :: "'f args \<Rightarrow> proc \<Rightarrow> bool" where
  "is_main_process_and_logging a p = (is_main_process p \<and> is_logging_enabled a)"

definition training_seed :: "('t, 'b, 'f) env \<Rightarrow> 'f args \<Rightarrow> int" where
  "training_seed env a = get_seed_from_string env (''training_seed_'' @ seed a)"

text \<open>The block under \<open>if iteration % K == 0\<close>: clipping, optimizer step, SWA update.\<close>

definition optimizer_update ::
  "'f args \<Rightarrow> ('t, 'b, 'f) env \<Rightarrow> 't pstate \<Rightarrow> 'f event list \<times> 't pstate" where
  "optimizer_update a env st =
    (let g = (if gradient_clipping a
              then clip_grad_norm_op env (clip_grad_max_norm a) (accumulated_grads st)
              else accumulated_grads st);
         (opt, w) = optimizer_step_op env (optimizer_state st) g (weights (alphafold st));
         st1 = st\<lparr>accumulated_grads := g, optimizer_state := opt,
                  alphafold := (alphafold st)\<lparr>weights := w\<rparr>\<rparr>;
         st2 = (if swa_enabled env
                then st1\<lparr>swa_alphafold :=
                       (swa_alphafold st1)\<lparr>weights := swa_update_op env (weights (swa_alphafold st1)) w\<rparr>\<rparr>
                else st1)
     in ((if gradient_clipping a then [ClipGradNorm (clip_grad_max_norm a)] else [])
           @ [OptimizerStep] @ (if swa_enabled env then [SwaUpdate] else []),
         st2))"

text \<open>
  From the top of the loop body to the SWA update: seeding, next batch, forward pass and
  loss, then the backward pass and the optimizer block.
\<close>

definition train_step ::
  "'f args \<Rightarrow> ('t, 'b, 'f) env \<Rightarrow> int \<Rightarrow> 't pstate \<Rightarrow> 'f event list \<times> 't pstate \<times> error option"
where
  "train_step a env iteration st =
    (case py_mod (training_seed env a + iteration) (TORCH_SEED_MODULUS env) of
       Inl e \<Rightarrow> ([], st, Some e)
     | Inr s \<Rightarrow>
       let ev0 = [ManualSeed s, NextTrainBatch, ModuleCall True] in
       (case py_mod (iteration - 1) (gradient_accumulation_iters a) of
          Inl e \<Rightarrow> (ev0, st, Some e)
        | Inr r1 \<Rightarrow>
          let ev1 = (if r1 = 0 then [ZeroGrad] else []);
              st1 = (if r1 = 0
                     then st\<lparr>accumulated_grads := zero_grad_op env (accumulated_grads st)\<rparr>
                     else st);
              st2 = st1\<lparr>accumulated_grads :=
                      backward_op env (weights (alphafold st1)) (train_batches env iteration)
                        (gradient_accumulation_iters a) (accumulated_grads st1)\<rparr>
          in (case py_mod iteration (gradient_accumulation_iters a) of
                Inl e \<Rightarrow> (ev0 @ ev1 @ [Backward], st2, Some e)
              | Inr r2 \<Rightarrow>
                if r2 = 0
                then (case optimizer_update a env st2 of
                        (ev3, st3) \<Rightarrow> (ev0 @ ev1 @ [Backward] @ ev3, st3, None))
                else (ev0 @ ev1 @ [Backward], st2, None))))"

text \<open>
  The logging blocks: loss averaging, the two log buffers and their flush. Under
  \<open>is_logging_enabled\<close> the divisor \<open>log_every_iters\<close> is positive.
\<close>

definition logging_step :: "'f args \<Rightarrow> proc \<Rightarrow> int \<Rightarrow> 'f event list" where
  "logging_step a p iteration =
    (if is_logging_enabled a \<and> distributed a then [DistReduceLossesAvg False] else [])
    @ (if is_logging_enabled a \<and> save_process_logs a then [AppendProcessLog iteration] else [])
    @ (if is_main_process_and_logging a p
       then [AppendTrainLog iteration, Print (MsgTraining iteration)] else [])
    @ (if is_logging_enabled a \<and> iteration mod log_every_iters a = 0
       then (if save_process_logs a then [SaveProcessLogs] else [])
            @ [ClearProcessLogs]
            @ (if is_main_process p then [SaveTrainLogs, ClearTrainLogs] else [])
       else [])"

text \<open>The call of \<open>validation\<close> on the SWA network if enabled, else on the live one.\<close>

definition run_validation ::
  "('t, 'b, 'f) env \<Rightarrow> 't pstate
     \<Rightarrow> 'f event list \<times> 't pstate \<times> (error + 'f val_metrics list)" where
  "run_validation env st =
    (if swa_enabled env
     then (case validation env (swa_alphafold st) (validation_dataloader env) of
             (ev, m, res) \<Rightarrow> (ev, st\<lparr>swa_alphafold := m\<rparr>, res))
     else (case validation env (alphafold st) (validation_dataloader env) of
             (ev, m, res) \<Rightarrow> (ev, st\<lparr>alphafold := m\<rparr>, res)))"

text \<open>
  The validation block up to the point where \<open>stop_training_flag\<close> has its local value:
  validation, gather, the aggregation and the size assertion on the main process, the
  validation log, and the comparison with the target. The aggregation comes first: a
  \<open>DataFrame\<close> built from an empty list has no column, so reading its \<open>lddt_ca\<close>
  column raises \<open>KeyError\<close> before the size is compared.
\<close>

definition validation_step ::
  "'f args \<Rightarrow> ('t, 'b, 'f) env \<Rightarrow> proc \<Rightarrow> int \<Rightarrow> 't pstate
     \<Rightarrow> 'f event list \<times> 't pstate \<times> (error + 'f val_outcome)" where
  "validation_step a env p iteration st =
    (case py_mod iteration (val_every_iters a) of
       Inl e \<Rightarrow> ([], st, Inl e)
     | Inr r \<Rightarrow>
       if r \<noteq> 0 then ([], st, Inr NotValidation)
       else
         let ev0 = (if is_main_process_and_logging a p then [Print MsgValidationStart] else [])
         in (case run_validation env st of
               (evv, st1, Inl e) \<Rightarrow> (ev0 @ evv, st1, Inl e)
             | (evv, st1, Inr own) \<Rightarrow>
               let evg = (if distributed a then [DistGatherValMetrics True] else []);
                   val_metrics_list = (if distributed a then gathered env iteration else own)
               in if is_main_process p
                  then
                    if val_metrics_list = [] then (ev0 @ evv @ evg, st1, Inl KeyError)
                    else
                      let avg = series_mean env (map lddt_ca val_metrics_list);
                          val_size = length val_metrics_list
                      in if val_size \<noteq> validation_dataset_len env
                         then (ev0 @ evv @ evg, st1, Inl AssertionError)
                         else (ev0 @ evv @ evg
                                 @ (if is_main_process_and_logging a p
                                    then [Print (MsgValidationLog iteration),
                                          SaveValidationLog iteration avg val_size]
                                    else []),
                               st1,
                               Inr (Validated (Some avg)
                                      (if float_ge env avg (target_avg_lddt_ca_value a)
                                       then 1 else 0)))
                  else (ev0 @ evv @ evg, st1, Inr (Validated None 0))))"

text \<open>Everything in the loop body before the broadcast.\<close>

definition iteration_pre ::
  "'f args \<Rightarrow> ('t, 'b, 'f) env \<Rightarrow> proc \<Rightarrow> int \<Rightarrow> 't pstate
     \<Rightarrow> 'f event list \<times> 't pstate \<times> (error + 'f val_outcome)" where
  "iteration_pre a env p iteration st =
    (case train_step a env iteration st of
       (ev, st1, Some e) \<Rightarrow> (ev, st1, Inl e)
     | (ev, st1, None) \<Rightarrow>
       (case validation_step a env p iteration st1 of
          (evv, st2, res) \<Rightarrow> (ev @ logging_step a p iteration @ evv, st2, res)))"

text \<open>
  The rest of the loop body: the broadcast (\<open>recv\<close> is the value it delivers) and the
  cache release when validating, the checkpoint on the main process, then \<open>break\<close> or
  the LR scheduler step. Under its guard the divisor \<open>checkpoint_every_iters\<close> is
  positive.
\<close>

definition iteration_post ::
  "'f args \<Rightarrow> proc \<Rightarrow> int \<Rightarrow> 'f val_outcome \<Rightarrow> int \<Rightarrow> 'f event list \<times> outcome" where
  "iteration_post a p iteration vo recv =
    (let is_validation = (vo \<noteq> NotValidation);
         flag = (if distributed a then recv else stop_training_flag vo);
         evb = (if is_validation
                then (if distributed a then [BroadcastStopFlag flag] else [])
                     @ [GcCollect, EmptyCache]
                else []);
         evc = (if is_main_process p \<and> checkpoint_every_iters a > 0
                   \<and> iteration mod checkpoint_every_iters a = 0
                then [SaveCheckpoint iteration is_validation
                        (if is_validation then val_avg_lddt_ca vo else None)]
                else [])
     in if is_validation \<and> flag \<noteq> 0 then (evb @ evc, Break)
        else (evb @ evc @ [LRSchedulerStep], Continue))"

text \<open>The whole loop body for one process, the broadcast delivering \<open>bcast env iteration\<close>.\<close>

definition iteration_body ::
  "'f args \<Rightarrow> ('t, 'b, 'f) env \<Rightarrow> proc \<Rightarrow> int \<Rightarrow> 't pstate
     \<Rightarrow> 'f event list \<times> 't pstate \<times> outcome" where
  "iteration_body a env p iteration st =
    (case iteration_pre a env p iteration st of
       (ev, st1, Inl e) \<Rightarrow> (ev, st1, Raised e)
     | (ev, st1, Inr vo) \<Rightarrow>
       (case iteration_post a p iteration vo (bcast env iteration) of
          (ev2, oc) \<Rightarrow> (ev @ ev2, st1, oc)))"

text \<open>\<open>for iteration in range(first_iteration, num_train_iters + 1)\<close> with its \<open>break\<close>.\<close>

fun training_loop ::
  "'f args \<Rightarrow> ('t, 'b, 'f) env \<Rightarrow> proc \<Rightarrow> int list \<Rightarrow> 't pstate
     \<Rightarrow> 'f event list \<times> 't pstate \<times> error option" where
  "training_loop a env p [] st = ([], st, None)"
| "training_loop a env p (iteration # rest) st =
    (case iteration_body a env p iteration st of
       (ev, st1, Raised e) \<Rightarrow> (ev, st1, Some e)
     | (ev, st1, Break) \<Rightarrow> (ev, st1, None)
     | (ev, st1, Continue) \<Rightarrow>
       (case training_loop a env p rest st1 of
          (evs, st2, res) \<Rightarrow> (ev @ evs, st2, res)))"

section \<open>OpenFold: all processes in lock-step\<close>

text \<open>
  \<open>torch.distributed.broadcast(tensor, src)\<close> over the tensors of all ranks, listed by
  rank: every rank ends with the tensor of rank \<open>src\<close>.
\<close>

definition dist_broadcast :: "'a list \<Rightarrow> nat \<Rightarrow> 'a list" where
  "dist_broadcast tensors src = map (\<lambda>_. tensors ! src) tensors"


text \<open>
  One iteration of all processes in lock-step. Each process runs the loop body up to the
  broadcast; the broadcast delivers the main rank's flag; the outcome of a process is the
  loop body run with that flag as the value its broadcast receives. The result is
  \<open>None\<close> when some process raised before the broadcast.
\<close>

definition lockstep_iteration ::
  "'f args \<Rightarrow> int \<Rightarrow> (('t, 'b, 'f) env \<times> proc \<times> 't pstate) list
     \<Rightarrow> ('f event list \<times> 't pstate \<times> outcome) list option"
where
  "lockstep_iteration a iteration ps =
    (let pres = map (\<lambda>(env, p, st). iteration_pre a env p iteration st) ps in
     if ps = [] \<or> list_ex (\<lambda>(ev, st, res). isl res) pres then None
     else
       let received = dist_broadcast (map (\<lambda>(ev, st, res). stop_training_flag (projr res)) pres) 0
       in Some (map (\<lambda>((env, p, st), recv).
                       iteration_body a (env\<lparr>bcast := (\<lambda>_. recv)\<rparr>) p iteration st)
                  (zip ps received)))"

text \<open>
  The training loops of all processes in lock-step: the loop ends for all when all
  \<open>break\<close>, and goes on with the next iteration from the new states when all continue.
  Per process it gives the events, the last state and no error; the result is \<open>None\<close>
  when some process raised.
\<close>

fun lockstep_loop ::
  "'f args \<Rightarrow> int list \<Rightarrow> (('t, 'b, 'f) env \<times> proc \<times> 't pstate) list
     \<Rightarrow> ('f event list \<times> 't pstate \<times> error option) list option" where
  "lockstep_loop a [] ps = Some (map (\<lambda>(env, p, st). ([], st, None)) ps)"
| "lockstep_loop a (iteration # rest) ps =
    (case lockstep_iteration a iteration ps of
       None \<Rightarrow> None
     | Some outs \<Rightarrow>
       if list_all (\<lambda>(ev, st, oc). oc = Break) outs
       then Some (map (\<lambda>(ev, st, oc). (ev, st, None)) outs)
       else if list_all (\<lambda>(ev, st, oc). oc = Continue) outs
       then (case lockstep_loop a rest
                    (map (\<lambda>((env, p, st), (ev, st1, oc)). (env, p, st1)) (zip ps outs)) of
               None \<Rightarrow> None
             | Some results \<Rightarrow>
               Some (map (\<lambda>((ev, st1, oc), (evs, st2, res)). (ev @ evs, st2, res))
                       (zip outs results)))
       else None)"

section \<open>OpenFold: \<open>training\<close> and the entry point\<close>

text \<open>
  The launcher's environment variables, already read as integers; \<open>None\<close> is a missing
  variable.
\<close>

record environ =
  RANK :: "int option"
  WORLD_SIZE :: "int option"
  LOCAL_RANK :: "int option"

text \<open>
  The head of \<open>training\<close>: process-group initialisation and the per-process values.
  \<open>torch.distributed.is_initialized()\<close> holds exactly when \<open>init_process_group\<close> was
  called, that is when \<open>args.distributed\<close>; the two assertions on \<open>args.distributed\<close>
  then hold.
\<close>

definition startup :: "'f args \<Rightarrow> environ \<Rightarrow> 'f event list \<times> (error + proc)" where
  "startup a os_environ =
    (let ev0 = (if distributed a then [InitProcessGroup] else []);
         is_initialized = distributed a
     in if is_initialized
        then if \<not> distributed a then (ev0, Inl AssertionError)
             else (case RANK os_environ of
                     None \<Rightarrow> (ev0, Inl KeyError)
                   | Some r \<Rightarrow>
                     (case WORLD_SIZE os_environ of
                        None \<Rightarrow> (ev0, Inl KeyError)
                      | Some ws \<Rightarrow>
                        (case LOCAL_RANK os_environ of
                           None \<Rightarrow> (ev0, Inl KeyError)
                         | Some lr \<Rightarrow>
                           (ev0 @ (if r = 0 then [Print (MsgInitDistributed ws)] else []),
                            Inr \<lparr>rank = Some r, world_size = Some ws, local_rank = Some lr,
                                 main_rank = Some 0, is_main_process = (r = 0),
                                 device = Cuda lr,
                                 global_batch_size = device_batch_size a * ws\<rparr>))))
        else if distributed a then (ev0 @ [Print MsgSingleGPU], Inl AssertionError)
             else (ev0 @ [Print MsgSingleGPU],
                   Inr \<lparr>rank = None, world_size = None, local_rank = None,
                        main_rank = None, is_main_process = True,
                        device = Cuda 0,
                        global_batch_size = device_batch_size a\<rparr>))"

definition precision_settings :: "string \<Rightarrow> error + 'f event" where
  "precision_settings pr =
    (if pr = ''fp32'' then Inr DisableTF32
     else if pr = ''tf32'' then Inr EnableTF32
     else if pr \<in> {''bf16'', ''fp16'', ''amp''} then Inl NotImplementedError
     else Inl ValueError)"

text \<open>From the config to the resume: everything that creates training state.\<close>

definition create_training_state :: "'f args \<Rightarrow> ('t, 'b, 'f) env \<Rightarrow> 'f event list" where
  "create_training_state a env =
    [CreateConfig, CreateTrainingDataset, CreateValidationDataset,
     CreateAlphaFold (get_seed_from_string env (''alphafold_init_'' @ seed a)),
     CreateLoss, CreateOptimizer]
    @ (case initialize_parameters_from a of
         None \<Rightarrow> [] | Some path \<Rightarrow> [InitializeParameters path])
    @ [CreateSWA, ResumeFromLatestCheckpoint]"

text \<open>From the distributed wrapper to the LR scheduler.\<close>

definition create_loaders :: "'f args \<Rightarrow> ('t, 'b, 'f) env \<Rightarrow> int \<Rightarrow> 'f event list" where
  "create_loaders a env num_prev_iters =
    (if distributed a then [WrapDistributedDataParallel] else [])
    @ [CreateTrainingSampler
         (get_seed_from_string env (''initial_training_sampler_'' @ seed a)) num_prev_iters,
       CreateValidationSampler,
       CreateTrainingDataloader
         (get_seed_from_string env (''initial_training_dataloader_'' @ seed a)) num_prev_iters,
       CreateValidationDataloader,
       CreateLRScheduler (num_prev_iters + 1)]"

text \<open>
  \<open>training\<close>. The state restored by the resume is \<open>st0\<close>; the loop starts from it.
\<close>

definition training ::
  "'f args \<Rightarrow> environ \<Rightarrow> ('t, 'b, 'f) env \<Rightarrow> 't pstate \<Rightarrow> 'f event list \<times> error option" where
  "training a os_environ env st0 =
    (case startup a os_environ of
       (ev0, Inl e) \<Rightarrow> (ev0, Some e)
     | (ev0, Inr p) \<Rightarrow>
       let ev1 = ev0 @ [SetDevice (device p)] in
       (case precision_settings (precision a) of
          Inl e \<Rightarrow> (ev1, Some e)
        | Inr tf \<Rightarrow>
          let ev2 = ev1 @ [tf] @ create_training_state a env;
              num_prev_iters = num_prev_iters_resumed env
          in (case py_mod num_prev_iters (gradient_accumulation_iters a) of
                Inl e \<Rightarrow> (ev2, Some e)
              | Inr r \<Rightarrow>
                if r \<noteq> 0 then (ev2, Some AssertionError)
                else
                  let first_iteration = num_prev_iters + 1;
                      ev3 = ev2 @ create_loaders a env num_prev_iters
                  in (case training_loop a env p [first_iteration..num_train_iters a] st0 of
                        (evl, st, Some e) \<Rightarrow> (ev3 @ evl, Some e)
                      | (evl, st, None) \<Rightarrow>
                        (ev3 @ evl @ (if distributed a then [Barrier] else []), None)))))"

text \<open>\<open>training(parse_args())\<close>. No interrupt is modelled.\<close>

definition main ::
  "'f args \<Rightarrow> environ \<Rightarrow> ('t, 'b, 'f) env \<Rightarrow> 't pstate \<Rightarrow> 'f event list \<times> error option" where
  "main argv os_environ env st0 =
    (case parse_args argv of
       Inl e \<Rightarrow> ([], Some e)
     | Inr a \<Rightarrow> training a os_environ env st0)"

section \<open>DeepCAM: the inference driver (\<open>inference\<close>)\<close>

text \<open>
  The torch operations that \<open>inference\<close> calls, as parameters: inputs are \<open>'x\<close>, network
  outputs and tensors derived from them \<open>'o\<close>, the arrays handed back \<open>'r\<close>.
\<close>

record ('w, 'x, 'o, 'r) torch_ops =
  to_device :: "'x \<Rightarrow> 'x"
  net_forward :: "'w \<Rightarrow> 'x \<Rightarrow> 'o"
  softmax :: "'o \<Rightarrow> int \<Rightarrow> 'o"
  argmax :: "'o \<Rightarrow> int \<Rightarrow> 'o"
  cpu_numpy :: "'o \<Rightarrow> 'r"

datatype inference_event =
    LogStart string
  | LogEnd string
  | NetForward bool

text \<open>
  The \<open>for\<close> loop over the inference loader, inside \<open>torch.no_grad()\<close>: every forward
  pass runs with gradients disabled.
\<close>

fun inference_loop ::
  "('w, 'x, 'o, 'r) torch_ops \<Rightarrow> 'w \<Rightarrow> ('x \<times> 'n) list \<Rightarrow> ('n \<times> 'r) list
     \<Rightarrow> inference_event list \<times> ('n \<times> 'r) list" where
  "inference_loop ops w [] predictions_all = ([], predictions_all)"
| "inference_loop ops w ((inputs_inf, filename_inf) # rest) predictions_all =
    (let outputs_inf = net_forward ops w (to_device ops inputs_inf);
         predictions_inf = argmax ops (softmax ops outputs_inf 1) 1
     in case inference_loop ops w rest
               (predictions_all @ [(filename_inf, cpu_numpy ops predictions_inf)]) of
          (ev, res) \<Rightarrow> (NetForward False # ev, res))"

definition inference ::
  "('w, 'x, 'o, 'r) torch_ops \<Rightarrow> 'w module \<Rightarrow> ('x \<times> 'n) list
     \<Rightarrow> inference_event list \<times> 'w module \<times> ('n \<times> 'r) list" where
  "inference ops net inference_loader =
    (let net1 = net\<lparr>is_training := False\<rparr> in
     case inference_loop ops (weights net1) inference_loader [] of
       (ev, predictions_all) \<Rightarrow>
         ([LogStart ''inference_start''] @ ev @ [LogEnd ''inference_stop''],
          net1, predictions_all))"

section \<open>Observations on event lists\<close>

text \<open>
  What the theorems read off an event list: the gradient and parameter updates, the
  seeds applied and the loss-averaging collectives, each in order.
\<close>

definition update_events :: "'f event list \<Rightarrow> 'f event list" where
  "update_events ev = filter (\<lambda>e. e \<in> {ZeroGrad, Backward, OptimizerStep, SwaUpdate}) ev"

definition seeds_applied :: "'f event list \<Rightarrow> int list" where
  "seeds_applied ev = concat (map (\<lambda>e. case e of ManualSeed s \<Rightarrow> [s] | _ \<Rightarrow> []) ev)"

definition loss_averaging_events :: "'f event list \<Rightarrow> 'f event list" where
  "loss_averaging_events ev =
     filter (\<lambda>e. case e of DistReduceLossesAvg s \<Rightarrow> True | _ \<Rightarrow> False) ev"

text \<open>The seed that \<open>torch.manual_seed\<close> receives at an iteration.\<close>

definition iteration_seed :: "('t, 'b, 'f) env \<Rightarrow> 'f args \<Rightarrow> int \<Rightarrow> int" where
  "iteration_seed env a iteration
     = (get_seed_from_string env (''training_seed_'' @ seed a) + iteration)
         mod TORCH_SEED_MODULUS env"

text \<open>
  The events that the training step, the logging blocks and the validation block of an
  iteration can produce.
\<close>

definition train_step_events :: "'f event set" where
  "train_step_events =
     {NextTrainBatch, ModuleCall True, ZeroGrad, Backward, OptimizerStep, SwaUpdate}
     \<union> {e. \<exists>s. e = ManualSeed s} \<union> {e. \<exists>x. e = ClipGradNorm x}"

definition logging_step_events :: "'f event set" where
  "logging_step_events =
     {DistReduceLossesAvg False, SaveProcessLogs, ClearProcessLogs, SaveTrainLogs,
      ClearTrainLogs}
     \<union> {e. \<exists>i. e = AppendProcessLog i \<or> e = AppendTrainLog i \<or> e = Print (MsgTraining i)}"

definition validation_step_events :: "int \<Rightarrow> 'f event set" where
  "validation_step_events iteration =
     {Print MsgValidationStart, ModuleCall False, DistGatherValMetrics True,
      Print (MsgValidationLog iteration)}
     \<union> {e. \<exists>x n. e = SaveValidationLog iteration x n}"

section \<open>Example configurations and collaborators\<close>

text \<open>
  Configurations with \<open>K = 2\<close>: log cadence 2 dividing validation and checkpoint cadence
  4, in a single-process and in a distributed run; the same without checkpoints; the
  defaults otherwise, with the log cadence left at \<open>-1\<close>; and the negative log cadence
  \<open>-2\<close>.
\<close>

definition cadence_example :: "real args" where
  "cadence_example = default_args\<lparr>log_every_iters := 2, val_every_iters := 4,
     checkpoint_every_iters := 4, gradient_accumulation_iters := 2\<rparr>"

definition distributed_example :: "real args" where
  "distributed_example = cadence_example\<lparr>distributed := True\<rparr>"

definition no_checkpoint_example :: "real args" where
  "no_checkpoint_example = default_args\<lparr>log_every_iters := 2, val_every_iters := 4,
     gradient_accumulation_iters := 2\<rparr>"

definition accumulation_example :: "real args" where
  "accumulation_example = default_args\<lparr>gradient_accumulation_iters := 2\<rparr>"

definition negative_multiple_example :: "real args" where
  "negative_multiple_example =
     default_args\<lparr>log_every_iters := - 2, gradient_accumulation_iters := 2\<rparr>"

text \<open>Two configurations with a precision that cannot run, one declared and one not.\<close>

definition unsupported_precision_example :: "real args" where
  "unsupported_precision_example = default_args\<lparr>precision := ''bf16'', distributed := True\<rparr>"

definition unknown_precision_example :: "real args" where
  "unknown_precision_example = default_args\<lparr>precision := ''fp64''\<rparr>"

text \<open>
  Collaborators on small types: tensors and batches are integers, floats are reals. Two
  validation samples, each with a well-formed id tuple. The gather of \<open>example_env\<close>
  delivers nothing, that of \<open>short_gather_example_env\<close> one validation record and that
  of \<open>gather_example_env\<close> both.
\<close>

definition example_batch :: "int \<Rightarrow> int val_batch" where
  "example_batch i =
     \<lparr>batch_id = [[PStr ''val'', PInt i, PInt 100, PStr ''7abc_A'']], batch_tensors = i\<rparr>"

definition example_env :: "(int, int, real) env" where
  "example_env = \<lparr>
     get_seed_from_string = (\<lambda>s. int (length s)),
     TORCH_SEED_MODULUS = 2 ^ 64,
     swa_enabled = True,
     zero_grad_op = (\<lambda>g. 0),
     backward_op = (\<lambda>w b k g. g + b),
     clip_grad_norm_op = (\<lambda>m g. g),
     optimizer_step_op = (\<lambda>opt g w. (opt + 1, w - g)),
     swa_update_op = (\<lambda>s w. w),
     lddt_ca_metric = (\<lambda>w b. 0.9),
     series_mean = (\<lambda>xs. sum_list xs / real (length xs)),
     float_ge = (\<lambda>x y. x \<ge> y),
     num_prev_iters_resumed = 0,
     train_batches = (\<lambda>i. i),
     validation_dataloader = \<lparr>dl_len = 2, dl_batches = [example_batch 0, example_batch 1]\<rparr>,
     validation_dataset_len = 2,
     gathered = (\<lambda>i. []),
     bcast = (\<lambda>i. 0) \<rparr>"

definition short_gather_example_env :: "(int, int, real) env" where
  "short_gather_example_env = example_env\<lparr>gathered :=
     (\<lambda>i. [\<lparr>lddt_ca = 0.9, val_index = PInt 0, pdb_chain_id = PStr ''7abc_A''\<rparr>])\<rparr>"


text \<open>
  A training state, a network in training mode, and a dataloader whose only batch holds
  two samples.
\<close>

definition example_state :: "int pstate" where
  "example_state = \<lparr>
     alphafold = \<lparr>is_training = True, weights = 10\<rparr>,
     swa_alphafold = \<lparr>is_training = True, weights = 10\<rparr>,
     optimizer_state = 0,
     accumulated_grads = 0 \<rparr>"

definition example_net :: "int module" where
  "example_net = \<lparr>is_training = True, weights = 10\<rparr>"

definition bad_dataloader :: "int dataloader" where
  "bad_dataloader = \<lparr>dl_len = 1, dl_batches =
     [\<lparr>batch_id = [[PStr ''val'', PInt 0, PInt 100, PStr ''7abc_A''],
                    [PStr ''val'', PInt 1, PInt 80, PStr ''7abd_A'']],
       batch_tensors = 0\<rparr>]\<rparr>"

text \<open>
  The launcher environment and the per-process values of a single process and of ranks
  0 and 1 of two, and a group of two processes.
\<close>

definition single_environ :: environ where
  "single_environ = \<lparr>RANK = None, WORLD_SIZE = None, LOCAL_RANK = None\<rparr>"

definition rank0_environ :: environ where
  "rank0_environ = \<lparr>RANK = Some 0, WORLD_SIZE = Some 2, LOCAL_RANK = Some 0\<rparr>"

definition single_proc :: proc where
  "single_proc = \<lparr>rank = None, world_size = None, local_rank = None, main_rank = None,
     is_main_process = True, device = Cuda 0, global_batch_size = 1\<rparr>"

definition rank0_proc :: proc where
  "rank0_proc = \<lparr>rank = Some 0, world_size = Some 2, local_rank = Some 0, main_rank = Some 0,
     is_main_process = True, device = Cuda 0, global_batch_size = 2\<rparr>"

definition rank1_proc :: proc where
  "rank1_proc = \<lparr>rank = Some 1, world_size = Some 2, local_rank = Some 1, main_rank = Some 0,
     is_main_process = False, device = Cuda 1, global_batch_size = 2\<rparr>"


section \<open>Properties of \<open>parse_args\<close>\<close>

lemma parse_args_default: "parse_args default_args = Inr default_args"
  by (simp add: parse_args_def default_args_def precision_choices_def)

lemma parse_args_accepts_iff:
  "parse_args a = Inr a' \<longleftrightarrow>
     a' = a
     \<and> precision a \<in> set precision_choices
     \<and> (0 < checkpoint_every_iters a \<longrightarrow> val_every_iters a mod checkpoint_every_iters a = 0)
     \<and> (0 < log_every_iters a \<longrightarrow> val_every_iters a mod log_every_iters a = 0)
     \<and> (0 < log_every_iters a \<longrightarrow> 0 < checkpoint_every_iters a
          \<longrightarrow> checkpoint_every_iters a mod log_every_iters a = 0)
     \<and> 1 \<le> gradient_accumulation_iters a
     \<and> num_train_iters a mod gradient_accumulation_iters a = 0
     \<and> val_every_iters a mod gradient_accumulation_iters a = 0
     \<and> checkpoint_every_iters a mod gradient_accumulation_iters a = 0
     \<and> log_every_iters a mod gradient_accumulation_iters a = 0
     \<and> warmup_lr_length a mod gradient_accumulation_iters a = 0
     \<and> init_lr_length a mod gradient_accumulation_iters a = 0"
  unfolding parse_args_def by (auto split: if_splits)

lemma parse_args_error:
  "parse_args a = Inl e \<Longrightarrow> e = SystemExit 2 \<or> e = AssertionError"
  unfolding parse_args_def by (auto split: if_splits)

lemma minus_one_mod_nonzero: "1 < (k::int) \<Longrightarrow> (- 1) mod k \<noteq> 0"
  by (simp add: zmod_minus1)

lemma parse_args_cadence_example: "parse_args cadence_example = Inr cadence_example"
  by (simp add: parse_args_def cadence_example_def default_args_def precision_choices_def)

lemma parse_args_accumulation_example: "parse_args accumulation_example = Inl AssertionError"
  by (simp add: parse_args_def accumulation_example_def default_args_def precision_choices_def)

lemma parse_args_no_checkpoint_example:
  "parse_args no_checkpoint_example = Inr no_checkpoint_example"
  by (simp add: parse_args_def no_checkpoint_example_def default_args_def precision_choices_def)

text \<open>
  C9, as stated: with accumulation enabled no negative log cadence would be accepted.
  With \<open>K = 2\<close> the negative cadence \<open>-2\<close> is accepted, and log saving is disabled.
\<close>

theorem parse_args_accepts_negative_multiple:
  "parse_args negative_multiple_example = Inr negative_multiple_example
   \<and> 1 < gradient_accumulation_iters negative_multiple_example
   \<and> log_every_iters negative_multiple_example < 0
   \<and> \<not> is_logging_enabled negative_multiple_example"
  by (simp add: parse_args_def negative_multiple_example_def default_args_def
        precision_choices_def is_logging_enabled_def)

text \<open>
  C9, amended. With an accumulation window \<open>K > 1\<close>, the log cadence at its default
  \<open>-1\<close>, and any negative log cadence that is not a multiple of \<open>K\<close>, makes
  \<open>parse_args\<close> fail an assertion, because \<open>log_every_iters % K\<close> is tested whether or
  not log saving is enabled and \<open>(-1) % K\<close> is not 0. The disabled checkpoint cadence 0
  passes its test for every \<open>K\<close>: with it, acceptance depends on no condition on the
  checkpoint cadence.
\<close>

theorem parse_args_rejects_default_log_cadence:
  "(precision a \<in> set precision_choices \<longrightarrow> 1 < gradient_accumulation_iters a
      \<longrightarrow> log_every_iters a < 0
      \<longrightarrow> log_every_iters a mod gradient_accumulation_iters a \<noteq> 0
      \<longrightarrow> parse_args a = Inl AssertionError)
   \<and> (1 < gradient_accumulation_iters a \<longrightarrow> log_every_iters a = - 1
      \<longrightarrow> log_every_iters a mod gradient_accumulation_iters a \<noteq> 0)
   \<and> (checkpoint_every_iters a = 0 \<longrightarrow>
        checkpoint_every_iters a mod gradient_accumulation_iters a = 0
        \<and> (parse_args a = Inr a \<longleftrightarrow>
             precision a \<in> set precision_choices
             \<and> (0 < log_every_iters a \<longrightarrow> val_every_iters a mod log_every_iters a = 0)
             \<and> 1 \<le> gradient_accumulation_iters a
             \<and> num_train_iters a mod gradient_accumulation_iters a = 0
             \<and> val_every_iters a mod gradient_accumulation_iters a = 0
             \<and> log_every_iters a mod gradient_accumulation_iters a = 0
             \<and> warmup_lr_length a mod gradient_accumulation_iters a = 0
             \<and> init_lr_length a mod gradient_accumulation_iters a = 0))"
proof (intro conjI impI)
  assume "precision a \<in> set precision_choices" "1 < gradient_accumulation_iters a"
    "log_every_iters a < 0" "log_every_iters a mod gradient_accumulation_iters a \<noteq> 0"
  then show "parse_args a = Inl AssertionError"
    unfolding parse_args_def by (auto split: if_splits)
next
  assume "1 < gradient_accumulation_iters a" "log_every_iters a = - 1"
  then show "log_every_iters a mod gradient_accumulation_iters a \<noteq> 0"
    using minus_one_mod_nonzero[of "gradient_accumulation_iters a"] by simp
next
  assume "checkpoint_every_iters a = 0"
  then show "checkpoint_every_iters a mod gradient_accumulation_iters a = 0" by simp
next
  assume "checkpoint_every_iters a = 0"
  then show "parse_args a = Inr a \<longleftrightarrow>
             precision a \<in> set precision_choices
             \<and> (0 < log_every_iters a \<longrightarrow> val_every_iters a mod log_every_iters a = 0)
             \<and> 1 \<le> gradient_accumulation_iters a
             \<and> num_train_iters a mod gradient_accumulation_iters a = 0
             \<and> val_every_iters a mod gradient_accumulation_iters a = 0
             \<and> log_every_iters a mod gradient_accumulation_iters a = 0
             \<and> warmup_lr_length a mod gradient_accumulation_iters a = 0
             \<and> init_lr_length a mod gradient_accumulation_iters a = 0"
    by (simp add: parse_args_accepts_iff)
qed

theorem parse_args_rejects_default_log_cadence_witness:
  "precision accumulation_example \<in> set precision_choices
   \<and> 1 < gradient_accumulation_iters accumulation_example
   \<and> log_every_iters accumulation_example = - 1
   \<and> log_every_iters accumulation_example mod gradient_accumulation_iters accumulation_example \<noteq> 0
   \<and> parse_args accumulation_example = Inl AssertionError
   \<and> checkpoint_every_iters no_checkpoint_example = 0
   \<and> 0 < log_every_iters no_checkpoint_example
   \<and> parse_args no_checkpoint_example = Inr no_checkpoint_example"
  using parse_args_rejects_default_log_cadence [of accumulation_example]
        parse_args_rejects_default_log_cadence [of no_checkpoint_example]
        parse_args_no_checkpoint_example
  by (simp add: accumulation_example_def no_checkpoint_example_def default_args_def
        precision_choices_def)

text \<open>
  C3, as stated: with log saving enabled, an accepted configuration would have a log
  cadence that is a multiple of the validation cadence. The configuration below is
  accepted with log cadence 2 and validation cadence 4.
\<close>

theorem parse_args_accepts_log_cadence_below_val_cadence:
  "parse_args cadence_example = Inr cadence_example
   \<and> 0 < log_every_iters cadence_example
   \<and> log_every_iters cadence_example mod val_every_iters cadence_example \<noteq> 0"
  by (simp add: parse_args_def cadence_example_def default_args_def precision_choices_def)

text \<open>
  C3, amended. An accepted configuration is returned unchanged and has every cadence
  and length a multiple of the accumulation window \<open>K \<ge> 1\<close>; with log saving enabled
  the log cadence is a multiple of \<open>K\<close> and divides the validation cadence (and the
  checkpoint cadence when checkpointing is enabled), and an enabled checkpoint cadence
  divides the validation cadence. A rejected configuration ends the program with that
  error before \<open>training\<close> has done anything.
\<close>

theorem parse_args_cadence_divisibility:
  "(parse_args a = Inr a' \<longrightarrow>
      a' = a
      \<and> 1 \<le> gradient_accumulation_iters a
      \<and> num_train_iters a mod gradient_accumulation_iters a = 0
      \<and> val_every_iters a mod gradient_accumulation_iters a = 0
      \<and> checkpoint_every_iters a mod gradient_accumulation_iters a = 0
      \<and> log_every_iters a mod gradient_accumulation_iters a = 0
      \<and> warmup_lr_length a mod gradient_accumulation_iters a = 0
      \<and> init_lr_length a mod gradient_accumulation_iters a = 0
      \<and> (0 < log_every_iters a \<longrightarrow>
            val_every_iters a mod log_every_iters a = 0
            \<and> (0 < checkpoint_every_iters a \<longrightarrow>
                 checkpoint_every_iters a mod log_every_iters a = 0))
      \<and> (0 < checkpoint_every_iters a \<longrightarrow>
            val_every_iters a mod checkpoint_every_iters a = 0))
   \<and> (parse_args a = Inl e \<longrightarrow> main a os_environ env st0 = ([], Some e))"
  by (simp add: parse_args_accepts_iff main_def)

theorem parse_args_cadence_divisibility_witness:
  "parse_args cadence_example = Inr cadence_example
   \<and> 0 < log_every_iters cadence_example
   \<and> 0 < checkpoint_every_iters cadence_example
   \<and> log_every_iters cadence_example mod gradient_accumulation_iters cadence_example = 0
   \<and> val_every_iters cadence_example mod log_every_iters cadence_example = 0
   \<and> checkpoint_every_iters cadence_example mod log_every_iters cadence_example = 0
   \<and> val_every_iters cadence_example mod checkpoint_every_iters cadence_example = 0
   \<and> parse_args accumulation_example = Inl AssertionError
   \<and> main accumulation_example single_environ example_env example_state
        = ([], Some AssertionError)"
  using parse_args_cadence_divisibility
          [of cadence_example cadence_example]
        parse_args_cadence_divisibility
          [of accumulation_example _ AssertionError single_environ example_env example_state]
        parse_args_cadence_example parse_args_accumulation_example
  by (simp add: cadence_example_def default_args_def)

section \<open>Properties of the inference driver\<close>

lemma inference_loop_eq:
  "inference_loop ops w loader acc =
    (map (\<lambda>_. NetForward False) loader,
     acc @ map (\<lambda>(x, f).
                 (f, cpu_numpy ops
                       (argmax ops (softmax ops (net_forward ops w (to_device ops x)) 1) 1)))
             loader)"
  by (induction loader arbitrary: acc) (auto simp: Let_def)

text \<open>
  C10. \<open>inference\<close> puts the network in evaluation mode and leaves it there, runs one
  forward pass per loader entry with gradients disabled, and returns, in loader order,
  one pair per entry: the file name and the argmax over dimension 1 of the softmax over
  dimension 1 of the network output.
\<close>

theorem inference_collects_predictions:
  "inference ops net inference_loader =
     (LogStart ''inference_start'' # map (\<lambda>_. NetForward False) inference_loader
        @ [LogEnd ''inference_stop''],
      net\<lparr>is_training := False\<rparr>,
      map (\<lambda>(inputs_inf, filename_inf).
             (filename_inf,
              cpu_numpy ops
                (argmax ops
                   (softmax ops (net_forward ops (weights net) (to_device ops inputs_inf)) 1) 1)))
        inference_loader)"
  by (simp add: inference_def inference_loop_eq)

section \<open>Properties of the validation runner\<close>

lemma validation_sample_events:
  "validation_sample env w b = (ev, res) \<Longrightarrow> set ev \<subseteq> {ModuleCall False}"
  by (auto simp: validation_sample_def Let_def split: if_splits sum.splits)

lemma validation_sample_Inr:
  "validation_sample env w b = (ev, Inr r) \<Longrightarrow>
     ev = [ModuleCall False] \<and> length (batch_id b) = 1
     \<and> lddt_ca r = lddt_ca_metric env w (batch_tensors b)
     \<and> tuple_get (hd (batch_id b)) 1 = Inr (val_index r)
     \<and> tuple_get (hd (batch_id b)) 3 = Inr (pdb_chain_id r)"
  by (auto simp: validation_sample_def Let_def split: if_splits sum.splits)

lemma validation_loop_events:
  "validation_loop env w n its acc = (ev, res) \<Longrightarrow> set ev \<subseteq> {ModuleCall False}"
proof (induction n arbitrary: its acc ev res)
  case 0
  then show ?case by simp
next
  case (Suc n)
  show ?case
  proof (cases its)
    case Nil
    with Suc.prems show ?thesis by simp
  next
    case (Cons b rest)
    obtain e1 r1 where s: "validation_sample env w b = (e1, r1)" by force
    note e1 = validation_sample_events[OF s]
    show ?thesis
    proof (cases r1)
      case (Inl e)
      with s Cons Suc.prems e1 show ?thesis by simp
    next
      case (Inr r)
      obtain e2 r2 where l: "validation_loop env w n rest (acc @ [r]) = (e2, r2)" by force
      from Suc.IH[OF l] have "set e2 \<subseteq> {ModuleCall False}" .
      moreover from s Inr l Cons Suc.prems have "ev = e1 @ e2" by simp
      ultimately show ?thesis using e1 by auto
    qed
  qed
qed

lemma validation_loop_Inr:
  "validation_loop env w n its acc = (ev, Inr recs) \<Longrightarrow>
     \<exists>rs. recs = acc @ rs \<and> length rs = n \<and> n \<le> length its
        \<and> ev = replicate n (ModuleCall False)
        \<and> (\<forall>i<n. validation_sample env w (its ! i) = ([ModuleCall False], Inr (rs ! i)))"
proof (induction n arbitrary: its acc ev)
  case 0
  then show ?case by simp
next
  case (Suc n)
  show ?case
  proof (cases its)
    case Nil
    with Suc.prems show ?thesis by simp
  next
    case (Cons b rest)
    obtain e1 r1 where s: "validation_sample env w b = (e1, r1)" by force
    show ?thesis
    proof (cases r1)
      case (Inl e)
      with s Cons Suc.prems show ?thesis by simp
    next
      case (Inr r)
      obtain e2 r2 where l: "validation_loop env w n rest (acc @ [r]) = (e2, r2)" by force
      from s Inr l Cons Suc.prems have r2: "r2 = Inr recs" and ev: "ev = e1 @ e2" by simp_all
      from validation_sample_Inr[OF s[unfolded Inr]] have e1: "e1 = [ModuleCall False]" by simp
      from Suc.IH[OF l[unfolded r2]] obtain rs where
        rs: "recs = (acc @ [r]) @ rs" "length rs = n" "n \<le> length rest"
          "e2 = replicate n (ModuleCall False)"
          "\<forall>i<n. validation_sample env w (rest ! i) = ([ModuleCall False], Inr (rs ! i))"
        by blast
      have "\<forall>i<Suc n. validation_sample env w (its ! i) = ([ModuleCall False], Inr ((r # rs) ! i))"
      proof (intro allI impI)
        fix i assume "i < Suc n"
        then show "validation_sample env w (its ! i) = ([ModuleCall False], Inr ((r # rs) ! i))"
          using rs(5) s Inr e1 Cons by (cases i) simp_all
      qed
      with rs ev e1 Cons show ?thesis
        by (intro exI[of _ "r # rs"]) simp
    qed
  qed
qed

lemma validation_loop_Inl:
  "validation_loop env w n its acc = (ev, Inl e) \<Longrightarrow>
     e = StopIteration \<or> e = AssertionError \<or> e = IndexError"
proof (induction n arbitrary: its acc ev)
  case 0
  then show ?case by simp
next
  case (Suc n)
  show ?case
  proof (cases its)
    case Nil
    with Suc.prems show ?thesis by simp
  next
    case (Cons b rest)
    obtain e1 r1 where s: "validation_sample env w b = (e1, r1)" by force
    show ?thesis
    proof (cases r1)
      case (Inl e')
      with s Cons Suc.prems have "e = e'" by simp
      with s Inl show ?thesis
        by (auto simp: validation_sample_def tuple_get_def Let_def split: if_splits sum.splits)
    next
      case (Inr r)
      obtain e2 r2 where l: "validation_loop env w n rest (acc @ [r]) = (e2, r2)" by force
      from s Inr l Cons Suc.prems have "r2 = Inl e" by simp
      with Suc.IH l show ?thesis by blast
    qed
  qed
qed

text \<open>
  C6, as stated: the network would be back in training mode on every exit. On a batch
  with two samples the assertion of \<open>validation\<close> fails and the network, in training
  mode at the call, is left in evaluation mode.
\<close>

theorem validation_exception_leaves_eval_mode:
  "is_training example_net
   \<and> validation example_env example_net bad_dataloader
       = ([], example_net\<lparr>is_training := False\<rparr>, Inl AssertionError)"
  by (simp add: validation_def bad_dataloader_def validation_sample_def example_net_def)

text \<open>
  C6, amended. \<open>validation\<close> changes nothing of the network but its mode flag, which
  ends as training mode when the function returns normally and as evaluation mode when
  an exception escapes; every forward pass runs with gradients disabled; and a normal
  return gives one record per batch of one full pass over the first \<open>len\<close> batches, in
  order, each built from that batch's single id tuple and its metric.
\<close>

theorem validation_mode_and_records:
  "validation env net dl = (ev, m, res) \<Longrightarrow>
     m = net\<lparr>is_training := \<not> isl res\<rparr>
     \<and> set ev \<subseteq> {ModuleCall False}
     \<and> (\<forall>recs. res = Inr recs \<longrightarrow>
           length recs = dl_len dl \<and> dl_len dl \<le> length (dl_batches dl)
           \<and> ev = replicate (dl_len dl) (ModuleCall False)
           \<and> (\<forall>i<dl_len dl.
                 length (batch_id (dl_batches dl ! i)) = 1
                 \<and> lddt_ca (recs ! i)
                     = lddt_ca_metric env (weights net) (batch_tensors (dl_batches dl ! i))
                 \<and> tuple_get (hd (batch_id (dl_batches dl ! i))) 1 = Inr (val_index (recs ! i))
                 \<and> tuple_get (hd (batch_id (dl_batches dl ! i))) 3
                     = Inr (pdb_chain_id (recs ! i))))"
proof -
  assume v: "validation env net dl = (ev, m, res)"
  obtain e1 r1 where
    l: "validation_loop env (weights net) (dl_len dl) (dl_batches dl) [] = (e1, r1)"
    by force
  from v l have ev: "ev = e1" and res: "res = r1"
    by (auto simp: validation_def Let_def split: sum.splits)
  from v l have m: "m = net\<lparr>is_training := \<not> isl res\<rparr>"
    by (auto simp: validation_def Let_def split: sum.splits)
  have e: "set ev \<subseteq> {ModuleCall False}"
    using validation_loop_events[OF l] ev by simp
  have "\<forall>recs. res = Inr recs \<longrightarrow>
           length recs = dl_len dl \<and> dl_len dl \<le> length (dl_batches dl)
           \<and> ev = replicate (dl_len dl) (ModuleCall False)
           \<and> (\<forall>i<dl_len dl.
                 length (batch_id (dl_batches dl ! i)) = 1
                 \<and> lddt_ca (recs ! i)
                     = lddt_ca_metric env (weights net) (batch_tensors (dl_batches dl ! i))
                 \<and> tuple_get (hd (batch_id (dl_batches dl ! i))) 1 = Inr (val_index (recs ! i))
                 \<and> tuple_get (hd (batch_id (dl_batches dl ! i))) 3
                     = Inr (pdb_chain_id (recs ! i)))"
  proof (intro allI impI)
    fix recs assume "res = Inr recs"
    with l res have
      "validation_loop env (weights net) (dl_len dl) (dl_batches dl) [] = (e1, Inr recs)"
      by simp
    from validation_loop_Inr[OF this] obtain rs where
      rs: "recs = rs" "length rs = dl_len dl" "dl_len dl \<le> length (dl_batches dl)"
        "e1 = replicate (dl_len dl) (ModuleCall False)"
        "\<forall>i<dl_len dl. validation_sample env (weights net) (dl_batches dl ! i)
                          = ([ModuleCall False], Inr (rs ! i))"
      by auto
    show "length recs = dl_len dl \<and> dl_len dl \<le> length (dl_batches dl)
           \<and> ev = replicate (dl_len dl) (ModuleCall False)
           \<and> (\<forall>i<dl_len dl.
                 length (batch_id (dl_batches dl ! i)) = 1
                 \<and> lddt_ca (recs ! i)
                     = lddt_ca_metric env (weights net) (batch_tensors (dl_batches dl ! i))
                 \<and> tuple_get (hd (batch_id (dl_batches dl ! i))) 1 = Inr (val_index (recs ! i))
                 \<and> tuple_get (hd (batch_id (dl_batches dl ! i))) 3
                     = Inr (pdb_chain_id (recs ! i)))"
    proof (intro conjI allI impI)
      fix i assume i: "i < dl_len dl"
      with rs(5) have
        "validation_sample env (weights net) (dl_batches dl ! i)
           = ([ModuleCall False], Inr (rs ! i))" by simp
      from validation_sample_Inr[OF this] rs(1)
      show "length (batch_id (dl_batches dl ! i)) = 1"
        and "lddt_ca (recs ! i)
               = lddt_ca_metric env (weights net) (batch_tensors (dl_batches dl ! i))"
        and "tuple_get (hd (batch_id (dl_batches dl ! i))) 1 = Inr (val_index (recs ! i))"
        and "tuple_get (hd (batch_id (dl_batches dl ! i))) 3 = Inr (pdb_chain_id (recs ! i))"
        by simp_all
    qed (use rs ev in simp_all)
  qed
  with m e show ?thesis by blast
qed

lemma example_env_fields:
  "get_seed_from_string example_env = (\<lambda>s. int (length s))"
  "TORCH_SEED_MODULUS example_env = 2 ^ 64"
  "swa_enabled example_env = True"
  "lddt_ca_metric example_env = (\<lambda>w b. 0.9)"
  "series_mean example_env = (\<lambda>xs. sum_list xs / real (length xs))"
  "float_ge example_env = (\<lambda>x y. x \<ge> y)"
  "num_prev_iters_resumed example_env = 0"
  "validation_dataloader example_env
     = \<lparr>dl_len = 2, dl_batches = [example_batch 0, example_batch 1]\<rparr>"
  "validation_dataset_len example_env = 2"
  "gathered example_env = (\<lambda>i. [])"
  "bcast example_env = (\<lambda>i. 0)"
  by (simp_all add: example_env_def)

lemma validation_loop_two:
  "validation_loop env w 2 (b1 # b2 # rest) acc =
     (case validation_sample env w b1 of
        (ev, Inl e) \<Rightarrow> (ev, Inl e)
      | (ev, Inr r) \<Rightarrow>
        (case validation_sample env w b2 of
           (ev2, Inl e) \<Rightarrow> (ev @ ev2, Inl e)
         | (ev2, Inr r2) \<Rightarrow> (ev @ ev2, Inr (acc @ [r, r2]))))"
  by (simp add: numeral_2_eq_2 split: prod.splits sum.splits)

lemma validation_example:
  "validation example_env example_net (validation_dataloader example_env)
     = ([ModuleCall False, ModuleCall False], example_net,
        Inr [\<lparr>lddt_ca = 0.9, val_index = PInt 0, pdb_chain_id = PStr ''7abc_A''\<rparr>,
             \<lparr>lddt_ca = 0.9, val_index = PInt 1, pdb_chain_id = PStr ''7abc_A''\<rparr>])"
  by (simp add: validation_def example_env_fields validation_loop_two example_batch_def
        validation_sample_def tuple_get_def example_net_def)

lemma validation_bad_example:
  "validation example_env example_net bad_dataloader
     = ([], example_net\<lparr>is_training := False\<rparr>, Inl AssertionError)"
  by (simp add: validation_def bad_dataloader_def validation_sample_def example_net_def)

theorem validation_mode_and_records_witness:
  "validation example_env example_net (validation_dataloader example_env)
     = ([ModuleCall False, ModuleCall False], example_net,
        Inr [\<lparr>lddt_ca = 0.9, val_index = PInt 0, pdb_chain_id = PStr ''7abc_A''\<rparr>,
             \<lparr>lddt_ca = 0.9, val_index = PInt 1, pdb_chain_id = PStr ''7abc_A''\<rparr>])
   \<and> is_training example_net
   \<and> dl_len (validation_dataloader example_env) = 2
   \<and> length (dl_batches (validation_dataloader example_env)) = 2
   \<and> validation example_env example_net bad_dataloader
       = ([], example_net\<lparr>is_training := False\<rparr>, Inl AssertionError)"
  using validation_mode_and_records [OF validation_example]
        validation_mode_and_records [OF validation_bad_example]
        validation_example validation_bad_example
  by (simp add: example_env_fields example_net_def)

section \<open>Properties of one training iteration\<close>

lemma update_events_append [simp]: "update_events (xs @ ys) = update_events xs @ update_events ys"
  by (simp add: update_events_def)

lemma seeds_applied_append [simp]: "seeds_applied (xs @ ys) = seeds_applied xs @ seeds_applied ys"
  by (simp add: seeds_applied_def)

lemma loss_averaging_events_append [simp]:
  "loss_averaging_events (xs @ ys) = loss_averaging_events xs @ loss_averaging_events ys"
  by (simp add: loss_averaging_events_def)

lemma optimizer_update_events:
  "optimizer_update a env st = (ev, st') \<Longrightarrow>
     update_events ev = OptimizerStep # (if swa_enabled env then [SwaUpdate] else [])
     \<and> seeds_applied ev = [] \<and> loss_averaging_events ev = []"
  by (auto simp: optimizer_update_def Let_def update_events_def seeds_applied_def
        loss_averaging_events_def split: prod.splits if_splits)

lemma optimizer_update_state:
  "optimizer_update a env st = (ev, st') \<Longrightarrow>
     is_training (alphafold st') = is_training (alphafold st)
     \<and> is_training (swa_alphafold st') = is_training (swa_alphafold st)
     \<and> (\<not> swa_enabled env \<longrightarrow> swa_alphafold st' = swa_alphafold st)"
  by (auto simp: optimizer_update_def Let_def split: prod.splits if_splits)

lemma train_step_update_events:
  assumes "gradient_accumulation_iters a \<noteq> 0" "TORCH_SEED_MODULUS env \<noteq> 0"
    and "train_step a env iteration st = (ev, st', r)"
  shows "r = None"
    and "update_events ev =
           (if (iteration - 1) mod gradient_accumulation_iters a = 0 then [ZeroGrad] else [])
           @ [Backward]
           @ (if iteration mod gradient_accumulation_iters a = 0
              then OptimizerStep # (if swa_enabled env then [SwaUpdate] else []) else [])"
    and "loss_averaging_events ev = []"
  using assms
  by (auto simp: train_step_def py_mod_def Let_def update_events_def loss_averaging_events_def
        split: prod.splits if_splits dest!: optimizer_update_events)

lemma train_step_seed:
  assumes "train_step a env iteration st = (ev, st', r)"
  shows "seeds_applied ev =
           (if TORCH_SEED_MODULUS env = 0 then []
            else [(training_seed env a + iteration) mod TORCH_SEED_MODULUS env])"
    and "TORCH_SEED_MODULUS env \<noteq> 0 \<Longrightarrow>
           \<exists>rest. ev = ManualSeed ((training_seed env a + iteration) mod TORCH_SEED_MODULUS env)
                        # NextTrainBatch # ModuleCall True # rest"
  using assms
  by (auto simp: train_step_def py_mod_def Let_def seeds_applied_def
        split: prod.splits if_splits dest!: optimizer_update_events)

lemma train_step_None:
  "train_step a env iteration st = (ev, st', None) \<Longrightarrow>
     TORCH_SEED_MODULUS env \<noteq> 0 \<and> gradient_accumulation_iters a \<noteq> 0"
  by (auto simp: train_step_def py_mod_def Let_def split: prod.splits if_splits)

lemma train_step_weights:
  assumes "gradient_accumulation_iters a \<noteq> 0"
    and "train_step a env iteration st = (ev, st', r)"
    and "iteration mod gradient_accumulation_iters a \<noteq> 0"
  shows "alphafold st' = alphafold st \<and> swa_alphafold st' = swa_alphafold st
         \<and> optimizer_state st' = optimizer_state st"
  using assms
  by (auto simp: train_step_def py_mod_def Let_def split: prod.splits if_splits)

lemma validation_frame:
  "validation env net dl = (ev, m, res) \<Longrightarrow>
     m = net\<lparr>is_training := \<not> isl res\<rparr> \<and> set ev \<subseteq> {ModuleCall False}"
proof -
  assume v: "validation env net dl = (ev, m, res)"
  obtain e1 r1 where
    l: "validation_loop env (weights net) (dl_len dl) (dl_batches dl) [] = (e1, r1)"
    by force
  from v l have "ev = e1" and "m = net\<lparr>is_training := \<not> isl res\<rparr>"
    by (auto simp: validation_def Let_def split: sum.splits)
  with validation_loop_events[OF l] show ?thesis by simp
qed

lemma run_validation_state:
  assumes "run_validation env st = (ev, st', res)"
  shows "set ev \<subseteq> {ModuleCall False}
         \<and> st' = (if swa_enabled env
                  then st\<lparr>swa_alphafold := (swa_alphafold st)\<lparr>is_training := \<not> isl res\<rparr>\<rparr>
                  else st\<lparr>alphafold := (alphafold st)\<lparr>is_training := \<not> isl res\<rparr>\<rparr>)"
proof (cases "swa_enabled env")
  case True
  obtain e m r where v: "validation env (swa_alphafold st) (validation_dataloader env) = (e, m, r)"
    by (metis prod_cases3)
  with assms True validation_frame[OF v] show ?thesis by (auto simp: run_validation_def)
next
  case False
  obtain e m r where v: "validation env (alphafold st) (validation_dataloader env) = (e, m, r)"
    by (metis prod_cases3)
  with assms False validation_frame[OF v] show ?thesis by (auto simp: run_validation_def)
qed

lemma run_validation_frame:
  assumes "run_validation env st = (ev, st', res)"
  shows "set ev \<subseteq> {ModuleCall False}"
    and "weights (alphafold st') = weights (alphafold st)"
    and "weights (swa_alphafold st') = weights (swa_alphafold st)"
    and "optimizer_state st' = optimizer_state st"
    and "accumulated_grads st' = accumulated_grads st"
  using run_validation_state[OF assms] by (simp_all split: if_splits)

lemma validation_step_frame:
  assumes "validation_step a env p iteration st = (ev, st', res)"
  shows "set ev \<subseteq> validation_step_events iteration"
    and "weights (alphafold st') = weights (alphafold st)"
    and "weights (swa_alphafold st') = weights (swa_alphafold st)"
    and "optimizer_state st' = optimizer_state st"
    and "accumulated_grads st' = accumulated_grads st"
proof -
  obtain evv st1 r1 where rv: "run_validation env st = (evv, st1, r1)"
    by (metis prod_cases3)
  note fr = run_validation_frame[OF rv]
  from assms rv fr(1) show "set ev \<subseteq> validation_step_events iteration"
    by (auto simp: validation_step_def validation_step_events_def Let_def
          split: sum.splits if_splits)
  from assms rv fr(2-5)
  show "weights (alphafold st') = weights (alphafold st)"
    and "weights (swa_alphafold st') = weights (swa_alphafold st)"
    and "optimizer_state st' = optimizer_state st"
    and "accumulated_grads st' = accumulated_grads st"
    by (auto simp: validation_step_def Let_def split: sum.splits if_splits)
qed

lemma validation_step_events_filters:
  assumes "set ev \<subseteq> validation_step_events iteration"
  shows "update_events ev = []" and "seeds_applied ev = []" and "loss_averaging_events ev = []"
proof -
  show "update_events ev = []"
    unfolding update_events_def filter_empty_conv
    using assms by (auto simp: validation_step_events_def)
  show "loss_averaging_events ev = []"
    unfolding loss_averaging_events_def filter_empty_conv
    using assms by (auto simp: validation_step_events_def)
  have "\<forall>e\<in>set ev. (case e of ManualSeed s \<Rightarrow> [s] | _ \<Rightarrow> []) = []"
    using assms by (auto simp: validation_step_events_def)
  then show "seeds_applied ev = []"
    unfolding seeds_applied_def by (induction ev) auto
qed

lemma seeds_applied_simps [simp]:
  "seeds_applied [] = []"
  "seeds_applied (e # es) = (case e of ManualSeed s \<Rightarrow> [s] | _ \<Rightarrow> []) @ seeds_applied es"
  by (simp_all add: seeds_applied_def)

lemma logging_step_filters:
  "update_events (logging_step a p iteration) = []"
  "seeds_applied (logging_step a p iteration) = []"
  "loss_averaging_events (logging_step a p iteration)
     = (if is_logging_enabled a \<and> distributed a then [DistReduceLossesAvg False] else [])"
  by (simp_all add: logging_step_def update_events_def loss_averaging_events_def)

lemma iteration_post_filters:
  assumes "iteration_post a p iteration vo recv = (ev, oc)"
  shows "update_events ev = []" and "seeds_applied ev = []" and "loss_averaging_events ev = []"
  using assms
  by (auto simp: iteration_post_def Let_def update_events_def seeds_applied_def
        loss_averaging_events_def split: if_splits)

lemma iteration_body_cases:
  assumes "iteration_body a env p iteration st = (ev, st', oc)"
  obtains (train_raised) e where "train_step a env iteration st = (ev, st', Some e)" "oc = Raised e"
  | (validation_raised) ev1 st1 evv e where
      "train_step a env iteration st = (ev1, st1, None)"
      "validation_step a env p iteration st1 = (evv, st', Inl e)"
      "ev = ev1 @ logging_step a p iteration @ evv" "oc = Raised e"
  | (completed) ev1 st1 evv vo ev2 where
      "train_step a env iteration st = (ev1, st1, None)"
      "validation_step a env p iteration st1 = (evv, st', Inr vo)"
      "iteration_post a p iteration vo (bcast env iteration) = (ev2, oc)"
      "ev = ev1 @ logging_step a p iteration @ evv @ ev2"
proof -
  obtain ev1 st1 r1 where t: "train_step a env iteration st = (ev1, st1, r1)"
    by (metis prod_cases3)
  show thesis
  proof (cases r1)
    case (Some e)
    with t assms train_raised show thesis
      by (auto simp: iteration_body_def iteration_pre_def)
  next
    case None
    obtain evv st2 res where v: "validation_step a env p iteration st1 = (evv, st2, res)"
      by (metis prod_cases3)
    show thesis
    proof (cases res)
      case (Inl e)
      with t None v assms validation_raised show thesis
        by (auto simp: iteration_body_def iteration_pre_def)
    next
      case (Inr vo)
      obtain ev2 oc2 where po: "iteration_post a p iteration vo (bcast env iteration) = (ev2, oc2)"
        by force
      with t None v Inr assms completed show thesis
        by (auto simp: iteration_body_def iteration_pre_def)
    qed
  qed
qed

text \<open>
  C7, amended. The non-synchronizing cross-process loss averaging runs once in every
  iteration when logging is enabled and the run is distributed, whatever
  \<open>iteration % K\<close> is, and in no iteration otherwise.
\<close>

theorem loss_averaging_every_logged_iteration:
  assumes "gradient_accumulation_iters a \<noteq> 0" and "TORCH_SEED_MODULUS env \<noteq> 0"
    and "iteration_body a env p iteration st = (ev, st', oc)"
  shows "loss_averaging_events ev =
           (if is_logging_enabled a \<and> distributed a then [DistReduceLossesAvg False] else [])"
  using assms(3)
proof (cases rule: iteration_body_cases)
  case (train_raised e)
  with train_step_update_events(1)[OF assms(1,2) train_raised(1)] show ?thesis by simp
next
  case (validation_raised ev1 st1 evv e)
  note t = train_step_update_events[OF assms(1,2) validation_raised(1)]
  note v = validation_step_frame[OF validation_raised(2)]
  note f = validation_step_events_filters[OF v(1)]
  from t(3) f(3) validation_raised(3) show ?thesis
    by (simp add: logging_step_filters)
next
  case (completed ev1 st1 evv vo ev2)
  note t = train_step_update_events[OF assms(1,2) completed(1)]
  note v = validation_step_frame[OF completed(2)]
  note f = validation_step_events_filters[OF v(1)]
  note po = iteration_post_filters[OF completed(3)]
  from t(3) f(3) po(3) completed(4) show ?thesis
    by (simp add: logging_step_filters)
qed

lemma iteration_body_seed:
  assumes "iteration_body a env p iteration st = (ev, st', oc)"
  shows "seeds_applied ev =
           (if TORCH_SEED_MODULUS env = 0 then []
            else [(training_seed env a + iteration) mod TORCH_SEED_MODULUS env])
        \<and> (TORCH_SEED_MODULUS env \<noteq> 0 \<longrightarrow>
           (\<exists>rest. ev = ManualSeed ((training_seed env a + iteration) mod TORCH_SEED_MODULUS env)
                        # NextTrainBatch # ModuleCall True # rest))"
  using assms
proof (cases rule: iteration_body_cases)
  case (train_raised e)
  with train_step_seed[OF train_raised(1)] show ?thesis by simp
next
  case (validation_raised ev1 st1 evv e)
  note t = train_step_seed[OF validation_raised(1)]
  note v = validation_step_frame[OF validation_raised(2)]
  note f = validation_step_events_filters[OF v(1)]
  from t f(2) validation_raised(3) show ?thesis
    by (auto simp: logging_step_filters)
next
  case (completed ev1 st1 evv vo ev2)
  note t = train_step_seed[OF completed(1)]
  note v = validation_step_frame[OF completed(2)]
  note f = validation_step_events_filters[OF v(1)]
  note po = iteration_post_filters[OF completed(3)]
  from t f(2) po(2) completed(4) show ?thesis
    by (auto simp: logging_step_filters)
qed

lemma iteration_body_Continue:
  assumes "iteration_body a env p iteration st = (ev, st', Continue)"
  shows "TORCH_SEED_MODULUS env \<noteq> 0"
  using assms
proof (cases rule: iteration_body_cases)
  case (completed ev1 st1 evv vo ev2)
  with train_step_None[OF completed(1)] show ?thesis by simp
qed simp_all

lemma training_loop_seeds:
  "training_loop a env p its st = (ev, st', r) \<Longrightarrow>
     prefix (seeds_applied ev) (map (iteration_seed env a) its)"
proof (induction its arbitrary: st ev st' r)
  case Nil
  then show ?case by simp
next
  case (Cons iteration rest)
  obtain e1 s1 oc where b: "iteration_body a env p iteration st = (e1, s1, oc)"
    by (metis prod_cases3)
  from iteration_body_seed[OF b]
  have sd: "seeds_applied e1 =
           (if TORCH_SEED_MODULUS env = 0 then [] else [iteration_seed env a iteration])"
    by (simp add: iteration_seed_def training_seed_def)
  show ?case
  proof (cases oc)
    case Continue
    obtain e2 s2 r2 where l: "training_loop a env p rest s1 = (e2, s2, r2)"
      by (metis prod_cases3)
    from Cons.IH[OF l] have ih: "prefix (seeds_applied e2) (map (iteration_seed env a) rest)" .
    from b Continue l Cons.prems have ev: "ev = e1 @ e2" by simp
    from iteration_body_Continue b Continue have "TORCH_SEED_MODULUS env \<noteq> 0" by blast
    with sd ev ih show ?thesis by simp
  next
    case Break
    with b Cons.prems have "ev = e1" by simp
    with sd show ?thesis by simp
  next
    case (Raised e)
    with b Cons.prems have "ev = e1" by simp
    with sd show ?thesis by simp
  qed
qed

lemma example_args_fields:
  "gradient_accumulation_iters cadence_example = 2"
  "log_every_iters cadence_example = 2"
  "val_every_iters cadence_example = 4"
  "checkpoint_every_iters cadence_example = 4"
  "distributed cadence_example = False"
  "gradient_clipping cadence_example = False"
  "save_process_logs cadence_example = False"
  "seed cadence_example = ''1234567890''"
  "target_avg_lddt_ca_value cadence_example = 0.8"
  "gradient_accumulation_iters distributed_example = 2"
  "log_every_iters distributed_example = 2"
  "val_every_iters distributed_example = 4"
  "checkpoint_every_iters distributed_example = 4"
  "distributed distributed_example = True"
  "gradient_clipping distributed_example = False"
  "save_process_logs distributed_example = False"
  "seed distributed_example = ''1234567890''"
  "target_avg_lddt_ca_value distributed_example = 0.8"
  by (simp_all add: cadence_example_def distributed_example_def default_args_def)

lemma example_proc_fields:
  "is_main_process single_proc" "is_main_process rank0_proc" "\<not> is_main_process rank1_proc"
  "rank rank0_proc = Some 0" "rank rank1_proc = Some 1"
  by (simp_all add: single_proc_def rank0_proc_def rank1_proc_def)

lemma example_env_ops:
  "zero_grad_op example_env = (\<lambda>g. 0)"
  "backward_op example_env = (\<lambda>w b k g. g + b)"
  "clip_grad_norm_op example_env = (\<lambda>m g. g)"
  "optimizer_step_op example_env = (\<lambda>opt g w. (opt + 1, w - g))"
  "swa_update_op example_env = (\<lambda>s w. w)"
  "train_batches example_env = (\<lambda>i. i)"
  by (simp_all add: example_env_def)

lemma example_training_seed:
  "training_seed example_env cadence_example = 24"
  "training_seed example_env distributed_example = 24"
  by (simp_all add: training_seed_def example_env_fields example_args_fields)

lemma example_iteration_1:
  "iteration_body distributed_example example_env rank0_proc 1 example_state
     = ([ManualSeed 25, NextTrainBatch, ModuleCall True, ZeroGrad, Backward,
         DistReduceLossesAvg False, AppendTrainLog 1, Print (MsgTraining 1), LRSchedulerStep],
        example_state\<lparr>accumulated_grads := 1\<rparr>, Continue)"
  by (simp add: iteration_body_def iteration_pre_def train_step_def py_mod_def
        example_training_seed example_env_fields example_env_ops example_args_fields
        logging_step_def is_logging_enabled_def is_main_process_and_logging_def
        validation_step_def iteration_post_def rank0_proc_def example_state_def Let_def)

lemma example_iteration_2:
  "iteration_body distributed_example example_env rank0_proc 2
       (example_state\<lparr>accumulated_grads := 1\<rparr>)
     = ([ManualSeed 26, NextTrainBatch, ModuleCall True, Backward, OptimizerStep, SwaUpdate,
         DistReduceLossesAvg False, AppendTrainLog 2, Print (MsgTraining 2),
         ClearProcessLogs, SaveTrainLogs, ClearTrainLogs, LRSchedulerStep],
        \<lparr>alphafold = \<lparr>is_training = True, weights = 7\<rparr>,
         swa_alphafold = \<lparr>is_training = True, weights = 7\<rparr>,
         optimizer_state = 1, accumulated_grads = 3\<rparr>, Continue)"
  by (simp add: iteration_body_def iteration_pre_def train_step_def py_mod_def
        optimizer_update_def
        example_training_seed example_env_fields example_env_ops example_args_fields
        logging_step_def is_logging_enabled_def is_main_process_and_logging_def
        validation_step_def iteration_post_def rank0_proc_def example_state_def Let_def)

lemma example_single_iteration_1:
  "iteration_body cadence_example example_env single_proc 1 example_state
     = ([ManualSeed 25, NextTrainBatch, ModuleCall True, ZeroGrad, Backward,
         AppendTrainLog 1, Print (MsgTraining 1), LRSchedulerStep],
        example_state\<lparr>accumulated_grads := 1\<rparr>, Continue)"
  by (simp add: iteration_body_def iteration_pre_def train_step_def py_mod_def
        example_training_seed example_env_fields example_env_ops example_args_fields
        logging_step_def is_logging_enabled_def is_main_process_and_logging_def
        validation_step_def iteration_post_def single_proc_def example_state_def Let_def)

lemma example_loop_distributed:
  "training_loop distributed_example example_env rank0_proc [1, 2] example_state
     = ([ManualSeed 25, NextTrainBatch, ModuleCall True, ZeroGrad, Backward,
         DistReduceLossesAvg False, AppendTrainLog 1, Print (MsgTraining 1), LRSchedulerStep,
         ManualSeed 26, NextTrainBatch, ModuleCall True, Backward, OptimizerStep, SwaUpdate,
         DistReduceLossesAvg False, AppendTrainLog 2, Print (MsgTraining 2),
         ClearProcessLogs, SaveTrainLogs, ClearTrainLogs, LRSchedulerStep],
        \<lparr>alphafold = \<lparr>is_training = True, weights = 7\<rparr>,
         swa_alphafold = \<lparr>is_training = True, weights = 7\<rparr>,
         optimizer_state = 1, accumulated_grads = 3\<rparr>, None)"
  by (simp add: example_iteration_1 example_iteration_2)

lemma example_single_iteration_2:
  "iteration_body cadence_example example_env single_proc 2
       (example_state\<lparr>accumulated_grads := 1\<rparr>)
     = ([ManualSeed 26, NextTrainBatch, ModuleCall True, Backward, OptimizerStep, SwaUpdate,
         AppendTrainLog 2, Print (MsgTraining 2),
         ClearProcessLogs, SaveTrainLogs, ClearTrainLogs, LRSchedulerStep],
        \<lparr>alphafold = \<lparr>is_training = True, weights = 7\<rparr>,
         swa_alphafold = \<lparr>is_training = True, weights = 7\<rparr>,
         optimizer_state = 1, accumulated_grads = 3\<rparr>, Continue)"
  by (simp add: iteration_body_def iteration_pre_def train_step_def py_mod_def
        optimizer_update_def
        example_training_seed example_env_fields example_env_ops example_args_fields
        logging_step_def is_logging_enabled_def is_main_process_and_logging_def
        validation_step_def iteration_post_def single_proc_def example_state_def Let_def)

lemma example_loop_single:
  "training_loop cadence_example example_env single_proc [1, 2] example_state
     = ([ManualSeed 25, NextTrainBatch, ModuleCall True, ZeroGrad, Backward,
         AppendTrainLog 1, Print (MsgTraining 1), LRSchedulerStep,
         ManualSeed 26, NextTrainBatch, ModuleCall True, Backward, OptimizerStep, SwaUpdate,
         AppendTrainLog 2, Print (MsgTraining 2),
         ClearProcessLogs, SaveTrainLogs, ClearTrainLogs, LRSchedulerStep],
        \<lparr>alphafold = \<lparr>is_training = True, weights = 7\<rparr>,
         swa_alphafold = \<lparr>is_training = True, weights = 7\<rparr>,
         optimizer_state = 1, accumulated_grads = 3\<rparr>, None)"
  by (simp add: example_single_iteration_1 example_single_iteration_2)

text \<open>
  C7, as stated: loss averaging would happen at window boundaries only. With \<open>K = 2\<close>
  and logging enabled in a distributed run, iteration 1 is no window boundary and the
  losses are averaged across processes in it.
\<close>

theorem loss_averaging_off_window_boundary:
  "is_logging_enabled distributed_example
   \<and> (1::int) mod gradient_accumulation_iters distributed_example \<noteq> 0
   \<and> DistReduceLossesAvg False
        \<in> set (fst (iteration_body distributed_example example_env rank0_proc 1 example_state))"
  by (simp add: example_iteration_1 is_logging_enabled_def example_args_fields)

theorem loss_averaging_every_logged_iteration_witness:
  "gradient_accumulation_iters distributed_example \<noteq> 0
   \<and> TORCH_SEED_MODULUS example_env \<noteq> 0
   \<and> is_logging_enabled distributed_example \<and> distributed distributed_example
   \<and> loss_averaging_events (fst (iteration_body distributed_example example_env rank0_proc 1
                                    example_state)) = [DistReduceLossesAvg False]
   \<and> \<not> distributed cadence_example
   \<and> loss_averaging_events (fst (iteration_body cadence_example example_env single_proc 1
                                    example_state)) = []"
  using loss_averaging_every_logged_iteration [OF _ _ example_iteration_1]
        loss_averaging_every_logged_iteration [OF _ _ example_single_iteration_1]
  by (simp add: example_iteration_1 example_single_iteration_1 example_env_fields
        example_args_fields is_logging_enabled_def)

text \<open>
  C4. Two runs over the same iterations with the same configured seed string apply, at
  every iteration both reach, the same seed: \<open>(training_seed + iteration)\<close> modulo the
  torch seed modulus, where \<open>training_seed\<close> is derived from the seed string alone. In
  each iteration the seed is applied first, before the batch is fetched and the forward
  pass runs.
\<close>

theorem iteration_seeds_reproducible:
  assumes "seed a1 = seed a2"
    and "get_seed_from_string env1 = get_seed_from_string env2"
    and "TORCH_SEED_MODULUS env1 = TORCH_SEED_MODULUS env2"
    and "training_loop a1 env1 p1 its st1 = (ev1, st1', r1)"
    and "training_loop a2 env2 p2 its st2 = (ev2, st2', r2)"
  shows "prefix (seeds_applied ev1) (map (iteration_seed env1 a1) its)
         \<and> prefix (seeds_applied ev2) (map (iteration_seed env1 a1) its)
         \<and> (\<forall>n. n < length (seeds_applied ev1) \<longrightarrow> n < length (seeds_applied ev2) \<longrightarrow>
                seeds_applied ev1 ! n = seeds_applied ev2 ! n)
         \<and> (\<forall>iteration st ev st' oc.
               TORCH_SEED_MODULUS env1 \<noteq> 0 \<longrightarrow>
               iteration_body a1 env1 p1 iteration st = (ev, st', oc) \<longrightarrow>
               (\<exists>rest. ev = ManualSeed (iteration_seed env1 a1 iteration)
                             # NextTrainBatch # ModuleCall True # rest))"
proof -
  have eq: "iteration_seed env2 a2 = iteration_seed env1 a1"
    using assms(1-3) by (simp add: iteration_seed_def fun_eq_iff)
  have p1: "prefix (seeds_applied ev1) (map (iteration_seed env1 a1) its)"
    using training_loop_seeds[OF assms(4)] .
  have p2: "prefix (seeds_applied ev2) (map (iteration_seed env1 a1) its)"
    using training_loop_seeds[OF assms(5)] eq by simp
  have nth: "\<forall>n. n < length (seeds_applied ev1) \<longrightarrow> n < length (seeds_applied ev2) \<longrightarrow>
                seeds_applied ev1 ! n = seeds_applied ev2 ! n"
  proof (intro allI impI)
    fix n assume n: "n < length (seeds_applied ev1)" "n < length (seeds_applied ev2)"
    from p1 n(1) have "seeds_applied ev1 ! n = map (iteration_seed env1 a1) its ! n"
      by (auto simp: prefix_def nth_append)
    moreover from p2 n(2) have "seeds_applied ev2 ! n = map (iteration_seed env1 a1) its ! n"
      by (auto simp: prefix_def nth_append)
    ultimately show "seeds_applied ev1 ! n = seeds_applied ev2 ! n" by simp
  qed
  have hd: "\<forall>iteration st ev st' oc.
               TORCH_SEED_MODULUS env1 \<noteq> 0 \<longrightarrow>
               iteration_body a1 env1 p1 iteration st = (ev, st', oc) \<longrightarrow>
               (\<exists>rest. ev = ManualSeed (iteration_seed env1 a1 iteration)
                             # NextTrainBatch # ModuleCall True # rest)"
    using iteration_body_seed by (fastforce simp: iteration_seed_def training_seed_def)
  from p1 p2 nth hd show ?thesis by blast
qed

theorem iteration_seeds_reproducible_witness:
  "seed distributed_example = seed cadence_example
   \<and> seeds_applied (fst (training_loop distributed_example example_env rank0_proc [1, 2]
                            example_state)) = [25, 26]
   \<and> seeds_applied (fst (training_loop cadence_example example_env single_proc [1, 2]
                            example_state)) = [25, 26]
   \<and> map (iteration_seed example_env distributed_example) [1, 2] = [25, 26]
   \<and> TORCH_SEED_MODULUS example_env \<noteq> 0"
  using iteration_seeds_reproducible
          [OF _ _ _ example_loop_distributed example_loop_single]
  by (simp add: example_loop_distributed example_loop_single example_args_fields
        example_env_fields iteration_seed_def del: training_loop.simps)

lemma train_step_state:
  assumes "train_step a env iteration st = (ev, st', None)"
  shows "let K = gradient_accumulation_iters a;
             g0 = (if (iteration - 1) mod K = 0 then zero_grad_op env (accumulated_grads st)
                   else accumulated_grads st);
             g1 = backward_op env (weights (alphafold st)) (train_batches env iteration) K g0;
             g2 = (if gradient_clipping a then clip_grad_norm_op env (clip_grad_max_norm a) g1
                   else g1)
         in if iteration mod K = 0
            then accumulated_grads st' = g2
                 \<and> (optimizer_state st', weights (alphafold st'))
                     = optimizer_step_op env (optimizer_state st) g2 (weights (alphafold st))
                 \<and> weights (swa_alphafold st')
                     = (if swa_enabled env
                        then swa_update_op env (weights (swa_alphafold st))
                               (weights (alphafold st'))
                        else weights (swa_alphafold st))
            else accumulated_grads st' = g1
                 \<and> optimizer_state st' = optimizer_state st
                 \<and> weights (alphafold st') = weights (alphafold st)
                 \<and> weights (swa_alphafold st') = weights (swa_alphafold st)"
  using assms
  by (auto simp: train_step_def py_mod_def optimizer_update_def Let_def
        split: prod.splits if_splits)

text \<open>
  C1. In every iteration of the loop body (with \<open>K\<close> and the seed modulus nonzero, so
  that the body reaches the backward pass), the gradients are reset exactly when
  \<open>(iteration - 1) % K = 0\<close>, one backward pass runs, and the optimizer step, followed by
  the SWA update when enabled, runs exactly when \<open>iteration % K = 0\<close>; in any other
  iteration the parameters, the SWA shadow and the optimizer state are unchanged. The state
  after the iteration is the one these operations compute: the accumulated gradients are
  the gradients of before (reset at a window's first iteration) with one backward pass
  added, clipped at the window's last iteration when clipping is configured; at the
  window's last iteration the optimizer state and the parameters are the result of the
  optimizer step on those gradients, and the SWA shadow is its update from the new
  parameters when SWA is enabled.
\<close>

theorem gradient_accumulation_window:
  assumes "gradient_accumulation_iters a \<noteq> 0" and "TORCH_SEED_MODULUS env \<noteq> 0"
    and "iteration_body a env p iteration st = (ev, st', oc)"
  shows "update_events ev =
           (if (iteration - 1) mod gradient_accumulation_iters a = 0 then [ZeroGrad] else [])
           @ [Backward]
           @ (if iteration mod gradient_accumulation_iters a = 0
              then OptimizerStep # (if swa_enabled env then [SwaUpdate] else []) else [])
         \<and> (iteration mod gradient_accumulation_iters a \<noteq> 0 \<longrightarrow>
               weights (alphafold st') = weights (alphafold st)
               \<and> weights (swa_alphafold st') = weights (swa_alphafold st)
               \<and> optimizer_state st' = optimizer_state st)
         \<and> (let K = gradient_accumulation_iters a;
                  g0 = (if (iteration - 1) mod K = 0
                        then zero_grad_op env (accumulated_grads st)
                        else accumulated_grads st);
                  g1 = backward_op env (weights (alphafold st)) (train_batches env iteration)
                         K g0;
                  g2 = (if gradient_clipping a
                        then clip_grad_norm_op env (clip_grad_max_norm a) g1 else g1)
              in if iteration mod K = 0
                 then accumulated_grads st' = g2
                      \<and> (optimizer_state st', weights (alphafold st'))
                          = optimizer_step_op env (optimizer_state st) g2
                              (weights (alphafold st))
                      \<and> weights (swa_alphafold st')
                          = (if swa_enabled env
                             then swa_update_op env (weights (swa_alphafold st))
                                    (weights (alphafold st'))
                             else weights (swa_alphafold st))
                 else accumulated_grads st' = g1)"
  using assms(3)
proof (cases rule: iteration_body_cases)
  case (train_raised e)
  with train_step_update_events(1)[OF assms(1,2) train_raised(1)] show ?thesis by simp
next
  case (validation_raised ev1 st1 evv e)
  note t = train_step_update_events[OF assms(1,2) validation_raised(1)]
  note w = train_step_weights[OF assms(1) validation_raised(1)]
  note ts = train_step_state[OF validation_raised(1)]
  note v = validation_step_frame[OF validation_raised(2)]
  note f = validation_step_events_filters[OF v(1)]
  have ev: "update_events ev =
           (if (iteration - 1) mod gradient_accumulation_iters a = 0 then [ZeroGrad] else [])
           @ [Backward]
           @ (if iteration mod gradient_accumulation_iters a = 0
              then OptimizerStep # (if swa_enabled env then [SwaUpdate] else []) else [])"
    using t(2) f(1) validation_raised(3) by (simp add: logging_step_filters)
  have fr: "iteration mod gradient_accumulation_iters a \<noteq> 0 \<longrightarrow>
               weights (alphafold st') = weights (alphafold st)
               \<and> weights (swa_alphafold st') = weights (swa_alphafold st)
               \<and> optimizer_state st' = optimizer_state st"
    using w v(2-4) by simp
  from ts v(2-5) ev fr show ?thesis by (simp add: Let_def)
next
  case (completed ev1 st1 evv vo ev2)
  note t = train_step_update_events[OF assms(1,2) completed(1)]
  note w = train_step_weights[OF assms(1) completed(1)]
  note ts = train_step_state[OF completed(1)]
  note v = validation_step_frame[OF completed(2)]
  note f = validation_step_events_filters[OF v(1)]
  note po = iteration_post_filters[OF completed(3)]
  have ev: "update_events ev =
           (if (iteration - 1) mod gradient_accumulation_iters a = 0 then [ZeroGrad] else [])
           @ [Backward]
           @ (if iteration mod gradient_accumulation_iters a = 0
              then OptimizerStep # (if swa_enabled env then [SwaUpdate] else []) else [])"
    using t(2) f(1) po(1) completed(4) by (simp add: logging_step_filters)
  have fr: "iteration mod gradient_accumulation_iters a \<noteq> 0 \<longrightarrow>
               weights (alphafold st') = weights (alphafold st)
               \<and> weights (swa_alphafold st') = weights (swa_alphafold st)
               \<and> optimizer_state st' = optimizer_state st"
    using w v(2-4) by simp
  from ts v(2-5) ev fr show ?thesis by (simp add: Let_def)
qed

theorem gradient_accumulation_window_witness:
  "gradient_accumulation_iters distributed_example \<noteq> 0
   \<and> TORCH_SEED_MODULUS example_env \<noteq> 0
   \<and> (1::int) mod gradient_accumulation_iters distributed_example \<noteq> 0
   \<and> (2::int) mod gradient_accumulation_iters distributed_example = 0
   \<and> swa_enabled example_env
   \<and> iteration_body distributed_example example_env rank0_proc 1 example_state
       = ([ManualSeed 25, NextTrainBatch, ModuleCall True, ZeroGrad, Backward,
           DistReduceLossesAvg False, AppendTrainLog 1, Print (MsgTraining 1), LRSchedulerStep],
          example_state\<lparr>accumulated_grads := 1\<rparr>, Continue)
   \<and> iteration_body distributed_example example_env rank0_proc 2
         (example_state\<lparr>accumulated_grads := 1\<rparr>)
       = ([ManualSeed 26, NextTrainBatch, ModuleCall True, Backward, OptimizerStep, SwaUpdate,
           DistReduceLossesAvg False, AppendTrainLog 2, Print (MsgTraining 2),
           ClearProcessLogs, SaveTrainLogs, ClearTrainLogs, LRSchedulerStep],
          \<lparr>alphafold = \<lparr>is_training = True, weights = 7\<rparr>,
           swa_alphafold = \<lparr>is_training = True, weights = 7\<rparr>,
           optimizer_state = 1, accumulated_grads = 3\<rparr>, Continue)
   \<and> optimizer_step_op example_env 0 3 10 = (1, 7)"
  using gradient_accumulation_window [OF _ _ example_iteration_1]
        gradient_accumulation_window [OF _ _ example_iteration_2]
  by (simp add: example_iteration_1 example_iteration_2 example_env_fields example_env_ops
        example_args_fields)


section \<open>Fatal errors: gathered validation records, precision modes\<close>

lemma train_step_event_set:
  "train_step a env iteration st = (ev, st', r) \<Longrightarrow> set ev \<subseteq> train_step_events"
  by (auto simp: train_step_def py_mod_def optimizer_update_def Let_def train_step_events_def
        split: prod.splits if_splits)

lemma logging_step_event_set: "set (logging_step a p iteration) \<subseteq> logging_step_events"
  by (auto simp: logging_step_def logging_step_events_def split: if_splits)

lemma startup_events:
  "startup a os_environ = (ev0, r) \<Longrightarrow>
     (InitProcessGroup \<in> set ev0 \<longleftrightarrow> distributed a)
     \<and> (\<forall>e\<in>set ev0. e = InitProcessGroup \<or> (\<exists>m. e = Print m))"
  by (auto simp: startup_def Let_def split: if_splits option.splits)

lemma precision_settings_unsupported:
  "pr \<in> {''bf16'', ''fp16'', ''amp''} \<Longrightarrow>
     (precision_settings pr :: error + 'f event) = Inl NotImplementedError"
  by (auto simp: precision_settings_def)

text \<open>
  C8, as stated: an unsupported precision would be fatal before any side effect. With
  \<open>--precision bf16\<close> in a distributed run the process group is initialised and the
  device is selected before \<open>NotImplementedError\<close> is raised.
\<close>

theorem unsupported_precision_after_device_selection:
  "main unsupported_precision_example rank0_environ example_env example_state
     = ([InitProcessGroup, Print (MsgInitDistributed 2), SetDevice (Cuda 0)],
        Some NotImplementedError)"
  by (simp add: main_def parse_args_def unsupported_precision_example_def default_args_def
        precision_choices_def training_def startup_def rank0_environ_def
        precision_settings_def)

text \<open>
  C8, amended. A precision outside the declared choices is rejected by argument parsing
  before anything else happens. The declared modes bf16, fp16 and amp pass argument
  parsing; \<open>training\<close> then raises \<open>NotImplementedError\<close> after the process-group
  initialisation (when distributed), the startup message and the device selection, and
  before any training state is created.
\<close>

theorem unsupported_precision_is_fatal:
  "(precision a \<notin> set precision_choices \<longrightarrow>
      main a os_environ env st0 = ([], Some (SystemExit 2)))
   \<and> (precision a \<in> {''bf16'', ''fp16'', ''amp''} \<longrightarrow> parse_args a = Inr a \<longrightarrow>
      startup a os_environ = (ev0, Inr p) \<longrightarrow>
        main a os_environ env st0 = (ev0 @ [SetDevice (device p)], Some NotImplementedError)
        \<and> (InitProcessGroup \<in> set ev0 \<longleftrightarrow> distributed a)
        \<and> (\<forall>e\<in>set ev0. e = InitProcessGroup \<or> (\<exists>m. e = Print m)))"
proof (intro conjI impI)
  assume "precision a \<notin> set precision_choices"
  then show "main a os_environ env st0 = ([], Some (SystemExit 2))"
    by (simp add: main_def parse_args_def)
next
  assume pr: "precision a \<in> {''bf16'', ''fp16'', ''amp''}" and pa: "parse_args a = Inr a"
    and su: "startup a os_environ = (ev0, Inr p)"
  from pr pa su show "main a os_environ env st0
          = (ev0 @ [SetDevice (device p)], Some NotImplementedError)"
    by (simp add: main_def training_def Let_def precision_settings_unsupported)
  from startup_events[OF su] show "InitProcessGroup \<in> set ev0 \<longleftrightarrow> distributed a" by simp
  from startup_events[OF su]
  show "\<forall>e\<in>set ev0. e = InitProcessGroup \<or> (\<exists>m. e = Print m)" by simp
qed

lemma startup_rank0_example:
  "startup unsupported_precision_example rank0_environ
     = ([InitProcessGroup, Print (MsgInitDistributed 2)],
        Inr \<lparr>rank = Some 0, world_size = Some 2, local_rank = Some 0, main_rank = Some 0,
             is_main_process = True, device = Cuda 0, global_batch_size = 2\<rparr>)"
  by (simp add: startup_def unsupported_precision_example_def default_args_def rank0_environ_def)

lemma parse_args_unsupported_precision_example:
  "parse_args unsupported_precision_example = Inr unsupported_precision_example"
  by (simp add: parse_args_def unsupported_precision_example_def default_args_def
        precision_choices_def)

theorem unsupported_precision_is_fatal_witness:
  "precision unknown_precision_example \<notin> set precision_choices
   \<and> main unknown_precision_example single_environ example_env example_state
       = ([], Some (SystemExit 2))
   \<and> precision unsupported_precision_example \<in> {''bf16'', ''fp16'', ''amp''}
   \<and> parse_args unsupported_precision_example = Inr unsupported_precision_example
   \<and> distributed unsupported_precision_example
   \<and> main unsupported_precision_example rank0_environ example_env example_state
       = ([InitProcessGroup, Print (MsgInitDistributed 2), SetDevice (Cuda 0)],
          Some NotImplementedError)"
  using unsupported_precision_is_fatal
          [of unknown_precision_example single_environ example_env example_state]
        unsupported_precision_is_fatal
          [of unsupported_precision_example rank0_environ example_env example_state
              "[InitProcessGroup, Print (MsgInitDistributed 2)]"
              "\<lparr>rank = Some 0, world_size = Some 2, local_rank = Some 0, main_rank = Some 0,
                is_main_process = True, device = Cuda 0, global_batch_size = 2\<rparr>"]
        startup_rank0_example parse_args_unsupported_precision_example
  by (simp add: unknown_precision_example_def unsupported_precision_example_def
        default_args_def precision_choices_def)

lemma validation_step_main_mismatch:
  assumes "is_main_process p" and "distributed a"
    and "val_every_iters a \<noteq> 0" and "iteration mod val_every_iters a = 0"
    and "length (gathered env iteration) \<noteq> validation_dataset_len env"
    and "validation_step a env p iteration st = (ev, st', res)"
  shows "\<exists>e. res = Inl e
           \<and> (DistGatherValMetrics True \<in> set ev \<longrightarrow>
                 e = (if gathered env iteration = [] then KeyError else AssertionError))"
proof -
  obtain evv st1 r1 where rv: "run_validation env st = (evv, st1, r1)"
    by (metis prod_cases3)
  note fr = run_validation_frame(1)[OF rv]
  show ?thesis
  proof (cases r1)
    case (Inl e)
    with assms rv fr show ?thesis
      by (auto simp: validation_step_def py_mod_def Let_def split: if_splits)
  next
    case (Inr own)
    with assms rv show ?thesis
      by (auto simp: validation_step_def py_mod_def Let_def split: if_splits)
  qed
qed

lemma short_gather_example_env_fields:
  "TORCH_SEED_MODULUS short_gather_example_env = 2 ^ 64"
  "swa_enabled short_gather_example_env = True"
  "zero_grad_op short_gather_example_env = (\<lambda>g. 0)"
  "backward_op short_gather_example_env = (\<lambda>w b k g. g + b)"
  "optimizer_step_op short_gather_example_env = (\<lambda>opt g w. (opt + 1, w - g))"
  "swa_update_op short_gather_example_env = (\<lambda>s w. w)"
  "lddt_ca_metric short_gather_example_env = (\<lambda>w b. 0.9)"
  "series_mean short_gather_example_env = (\<lambda>xs. sum_list xs / real (length xs))"
  "float_ge short_gather_example_env = (\<lambda>x y. x \<ge> y)"
  "train_batches short_gather_example_env = (\<lambda>i. i)"
  "validation_dataloader short_gather_example_env
     = \<lparr>dl_len = 2, dl_batches = [example_batch 0, example_batch 1]\<rparr>"
  "validation_dataset_len short_gather_example_env = 2"
  "gathered short_gather_example_env
     = (\<lambda>i. [\<lparr>lddt_ca = 0.9, val_index = PInt 0, pdb_chain_id = PStr ''7abc_A''\<rparr>])"
  "training_seed short_gather_example_env distributed_example = 24"
  by (simp_all add: short_gather_example_env_def example_env_def training_seed_def
        example_args_fields)

lemma example_iteration_4_empty_gather:
  "iteration_body distributed_example example_env rank0_proc 4 example_state
     = ([ManualSeed 28, NextTrainBatch, ModuleCall True, Backward, OptimizerStep, SwaUpdate,
         DistReduceLossesAvg False, AppendTrainLog 4, Print (MsgTraining 4),
         ClearProcessLogs, SaveTrainLogs, ClearTrainLogs,
         Print MsgValidationStart, ModuleCall False, ModuleCall False,
         DistGatherValMetrics True],
        \<lparr>alphafold = \<lparr>is_training = True, weights = 6\<rparr>,
         swa_alphafold = \<lparr>is_training = True, weights = 6\<rparr>,
         optimizer_state = 1, accumulated_grads = 4\<rparr>, Raised KeyError)"
  by (simp add: iteration_body_def iteration_pre_def train_step_def py_mod_def
        optimizer_update_def
        example_training_seed example_env_fields example_env_ops example_args_fields
        logging_step_def is_logging_enabled_def is_main_process_and_logging_def
        validation_step_def run_validation_def validation_def validation_loop_two
        validation_sample_def tuple_get_def example_batch_def
        iteration_post_def rank0_proc_def example_state_def Let_def)

lemma example_iteration_4_short_gather:
  "iteration_body distributed_example short_gather_example_env rank0_proc 4 example_state
     = ([ManualSeed 28, NextTrainBatch, ModuleCall True, Backward, OptimizerStep, SwaUpdate,
         DistReduceLossesAvg False, AppendTrainLog 4, Print (MsgTraining 4),
         ClearProcessLogs, SaveTrainLogs, ClearTrainLogs,
         Print MsgValidationStart, ModuleCall False, ModuleCall False,
         DistGatherValMetrics True],
        \<lparr>alphafold = \<lparr>is_training = True, weights = 6\<rparr>,
         swa_alphafold = \<lparr>is_training = True, weights = 6\<rparr>,
         optimizer_state = 1, accumulated_grads = 4\<rparr>, Raised AssertionError)"
  by (simp add: iteration_body_def iteration_pre_def train_step_def py_mod_def
        optimizer_update_def
        short_gather_example_env_fields example_args_fields
        logging_step_def is_logging_enabled_def is_main_process_and_logging_def
        validation_step_def run_validation_def validation_def validation_loop_two
        validation_sample_def tuple_get_def example_batch_def
        iteration_post_def rank0_proc_def example_state_def Let_def)

text \<open>
  C5, as stated, does not hold when the gathered list is empty: the mean of the
  \<open>lddt_ca\<close> column is taken before the size is compared, and a DataFrame built from an
  empty list has no such column. On the main process of a distributed run whose validation
  dataset has two samples, with an empty gathered list at the validation iteration 4, the
  iteration raises \<open>KeyError\<close>, not the failed assertion.
\<close>

theorem empty_gather_raises_key_error:
  "is_main_process rank0_proc \<and> distributed distributed_example
   \<and> (4::int) mod val_every_iters distributed_example = 0
   \<and> length (gathered example_env 4) \<noteq> validation_dataset_len example_env
   \<and> iteration_body distributed_example example_env rank0_proc 4 example_state
       = ([ManualSeed 28, NextTrainBatch, ModuleCall True, Backward, OptimizerStep, SwaUpdate,
           DistReduceLossesAvg False, AppendTrainLog 4, Print (MsgTraining 4),
           ClearProcessLogs, SaveTrainLogs, ClearTrainLogs,
           Print MsgValidationStart, ModuleCall False, ModuleCall False,
           DistGatherValMetrics True],
          \<lparr>alphafold = \<lparr>is_training = True, weights = 6\<rparr>,
           swa_alphafold = \<lparr>is_training = True, weights = 6\<rparr>,
           optimizer_state = 1, accumulated_grads = 4\<rparr>, Raised KeyError)"
  by (simp add: example_iteration_4_empty_gather example_args_fields example_env_fields
        example_proc_fields)

text \<open>
  C5, amended. In a distributed run, at a validation iteration where the list delivered by
  the gather to the main process has not the length of the validation dataset, the
  iteration of the main process raises and the loop ends with that error; once the gather
  has run, the error is \<open>KeyError\<close> from the aggregation when the gathered list is empty,
  and the failed assertion otherwise. No checkpoint is written, no stop flag is broadcast
  and the LR scheduler is not advanced in that iteration.
\<close>

theorem gathered_size_mismatch_is_fatal:
  assumes "is_main_process p" and "distributed a"
    and "val_every_iters a \<noteq> 0" and "iteration mod val_every_iters a = 0"
    and "length (gathered env iteration) \<noteq> validation_dataset_len env"
    and "iteration_body a env p iteration st = (ev, st', oc)"
  shows "(\<exists>e. oc = Raised e \<and> training_loop a env p (iteration # rest) st = (ev, st', Some e))
         \<and> (DistGatherValMetrics True \<in> set ev \<longrightarrow>
               oc = Raised (if gathered env iteration = [] then KeyError else AssertionError))
         \<and> (\<forall>i b s. SaveCheckpoint i b s \<notin> set ev)
         \<and> (\<forall>f. BroadcastStopFlag f \<notin> set ev)
         \<and> LRSchedulerStep \<notin> set ev"
  using assms(6)
proof (cases rule: iteration_body_cases)
  case (train_raised e)
  from train_step_event_set[OF train_raised(1)] have "set ev \<subseteq> train_step_events" .
  then have "DistGatherValMetrics True \<notin> set ev" "\<forall>i b s. SaveCheckpoint i b s \<notin> set ev"
    "\<forall>f. BroadcastStopFlag f \<notin> set ev" "LRSchedulerStep \<notin> set ev"
    by (auto simp: train_step_events_def)
  with train_raised(2) assms(6) show ?thesis by simp
next
  case (validation_raised ev1 st1 evv e)
  from train_step_event_set[OF validation_raised(1)] have s1: "set ev1 \<subseteq> train_step_events" .
  note s2 = logging_step_event_set[of a p iteration]
  note s3 = validation_step_frame(1)[OF validation_raised(2)]
  from validation_step_main_mismatch[OF assms(1-5) validation_raised(2)]
  have e: "DistGatherValMetrics True \<in> set evv \<longrightarrow>
             e = (if gathered env iteration = [] then KeyError else AssertionError)" by simp
  have "set ev \<subseteq> train_step_events \<union> logging_step_events \<union> validation_step_events iteration"
    using s1 s2 s3 validation_raised(3) by auto
  then have no: "\<forall>i b s. SaveCheckpoint i b s \<notin> set ev"
    "\<forall>f. BroadcastStopFlag f \<notin> set ev" "LRSchedulerStep \<notin> set ev"
    by (auto simp: train_step_events_def logging_step_events_def validation_step_events_def)
  have "DistGatherValMetrics True \<in> set ev \<longrightarrow> DistGatherValMetrics True \<in> set evv"
    using s1 s2 validation_raised(3)
    by (auto simp: train_step_events_def logging_step_events_def)
  with e no validation_raised(4) assms(6) show ?thesis by simp
next
  case (completed ev1 st1 evv vo ev2)
  from validation_step_main_mismatch[OF assms(1-5) completed(2)] show ?thesis by simp
qed

theorem gathered_size_mismatch_is_fatal_witness:
  "is_main_process rank0_proc \<and> distributed distributed_example
   \<and> val_every_iters distributed_example \<noteq> 0
   \<and> (4::int) mod val_every_iters distributed_example = 0
   \<and> gathered short_gather_example_env 4 \<noteq> []
   \<and> length (gathered short_gather_example_env 4)
        \<noteq> validation_dataset_len short_gather_example_env
   \<and> training_loop distributed_example short_gather_example_env rank0_proc [4] example_state
       = ([ManualSeed 28, NextTrainBatch, ModuleCall True, Backward, OptimizerStep, SwaUpdate,
           DistReduceLossesAvg False, AppendTrainLog 4, Print (MsgTraining 4),
           ClearProcessLogs, SaveTrainLogs, ClearTrainLogs,
           Print MsgValidationStart, ModuleCall False, ModuleCall False,
           DistGatherValMetrics True],
          \<lparr>alphafold = \<lparr>is_training = True, weights = 6\<rparr>,
           swa_alphafold = \<lparr>is_training = True, weights = 6\<rparr>,
           optimizer_state = 1, accumulated_grads = 4\<rparr>, Some AssertionError)
   \<and> gathered example_env 4 = []
   \<and> training_loop distributed_example example_env rank0_proc [4] example_state
       = ([ManualSeed 28, NextTrainBatch, ModuleCall True, Backward, OptimizerStep, SwaUpdate,
           DistReduceLossesAvg False, AppendTrainLog 4, Print (MsgTraining 4),
           ClearProcessLogs, SaveTrainLogs, ClearTrainLogs,
           Print MsgValidationStart, ModuleCall False, ModuleCall False,
           DistGatherValMetrics True],
          \<lparr>alphafold = \<lparr>is_training = True, weights = 6\<rparr>,
           swa_alphafold = \<lparr>is_training = True, weights = 6\<rparr>,
           optimizer_state = 1, accumulated_grads = 4\<rparr>, Some KeyError)"
  using gathered_size_mismatch_is_fatal
          [OF _ _ _ _ _ example_iteration_4_short_gather, of "[]"]
        gathered_size_mismatch_is_fatal
          [OF _ _ _ _ _ example_iteration_4_empty_gather, of "[]"]
  by (simp add: example_args_fields example_env_fields short_gather_example_env_fields
        example_proc_fields del: training_loop.simps)


section \<open>The stop decision across processes\<close>



lemma startup_proc:
  assumes "startup a os_environ = (ev, Inr p)"
  shows "distributed a \<Longrightarrow>
           rank p = RANK os_environ \<and> main_rank p = Some 0
           \<and> (is_main_process p \<longleftrightarrow> RANK os_environ = Some 0)"
    and "\<not> distributed a \<Longrightarrow> is_main_process p \<and> rank p = None"
  using assms by (auto simp: startup_def Let_def split: if_splits option.splits)







lemma validation_sample_bcast:
  "validation_sample (env\<lparr>bcast := f\<rparr>) w b = validation_sample env w b"
  by (simp add: validation_sample_def)

lemma validation_loop_bcast:
  "validation_loop (env\<lparr>bcast := f\<rparr>) w n its acc = validation_loop env w n its acc"
proof (induction n arbitrary: its acc)
  case 0
  then show ?case by simp
next
  case (Suc n)
  then show ?case by (cases its) (simp_all add: validation_sample_bcast)
qed

lemma optimizer_update_bcast:
  "optimizer_update a (env\<lparr>bcast := f\<rparr>) st = optimizer_update a env st"
  by (simp add: optimizer_update_def)

lemma train_step_bcast:
  "train_step a (env\<lparr>bcast := f\<rparr>) iteration st = train_step a env iteration st"
  by (simp add: train_step_def training_seed_def optimizer_update_bcast Let_def
        split: sum.splits)

lemma run_validation_bcast:
  "run_validation (env\<lparr>bcast := f\<rparr>) st = run_validation env st"
  by (simp add: run_validation_def validation_def validation_loop_bcast)

lemma validation_step_bcast:
  "validation_step a (env\<lparr>bcast := f\<rparr>) p iteration st = validation_step a env p iteration st"
  by (simp add: validation_step_def run_validation_bcast Let_def
        split: sum.splits prod.splits)

lemma iteration_pre_bcast:
  "iteration_pre a (env\<lparr>bcast := f\<rparr>) p iteration st = iteration_pre a env p iteration st"
  by (simp add: iteration_pre_def train_step_bcast validation_step_bcast
        split: prod.splits option.splits)


lemma lockstep_iteration_nth:
  assumes "lockstep_iteration a iteration ps = Some outs"
  shows "ps \<noteq> [] \<and> length outs = length ps
         \<and> (\<exists>ev0 s0 vo0.
               iteration_pre a (fst (ps ! 0)) (fst (snd (ps ! 0))) iteration (snd (snd (ps ! 0)))
                 = (ev0, s0, Inr vo0)
               \<and> (\<forall>i<length ps. \<exists>ev st1 vo.
                     iteration_pre a (fst (ps ! i)) (fst (snd (ps ! i))) iteration
                         (snd (snd (ps ! i)))
                       = (ev, st1, Inr vo)
                     \<and> outs ! i
                         = iteration_body a ((fst (ps ! i))\<lparr>bcast := (\<lambda>_. stop_training_flag vo0)\<rparr>)
                             (fst (snd (ps ! i))) iteration (snd (snd (ps ! i)))))"
proof -
  define pres where "pres = map (\<lambda>(env, p, st). iteration_pre a env p iteration st) ps"
  define received where
    "received = dist_broadcast (map (\<lambda>(ev, st, res). stop_training_flag (projr res)) pres) 0"
  from assms have ne: "ps \<noteq> []" and ok: "\<not> list_ex (\<lambda>(ev, st, res). isl res) pres"
    and outs: "outs = map (\<lambda>((env, p, st), recv).
                       iteration_body a (env\<lparr>bcast := (\<lambda>_. recv)\<rparr>) p iteration st)
                  (zip ps received)"
    by (auto simp: lockstep_iteration_def Let_def pres_def received_def split: if_splits)
  have lp: "length pres = length ps" by (simp add: pres_def)
  have lr: "length received = length ps" by (simp add: received_def dist_broadcast_def lp)
  have lo: "length outs = length ps" by (simp add: outs lr)
  have pre_i: "\<And>i. i < length ps \<Longrightarrow>
      pres ! i = iteration_pre a (fst (ps ! i)) (fst (snd (ps ! i))) iteration (snd (snd (ps ! i)))"
    by (simp add: pres_def split_beta)
  have isr: "\<And>i. i < length ps \<Longrightarrow> \<exists>ev st1 vo. pres ! i = (ev, st1, Inr vo)"
  proof -
    fix i assume i: "i < length ps"
    obtain ev st1 res where p: "pres ! i = (ev, st1, res)" by (metis prod_cases3)
    from i lp have "pres ! i \<in> set pres" by simp
    with ok p have "\<not> isl res" by (auto simp: list_ex_iff)
    then obtain vo where "res = Inr vo" by (cases res) auto
    with p show "\<exists>ev st1 vo. pres ! i = (ev, st1, Inr vo)" by blast
  qed
  from ne have z: "0 < length ps" by simp
  from isr[OF z] obtain ev0 s0 vo0 where p0: "pres ! 0 = (ev0, s0, Inr vo0)" by blast
  have rec_i: "\<And>i. i < length ps \<Longrightarrow> received ! i = stop_training_flag vo0"
    using p0 z lp by (simp add: received_def dist_broadcast_def)
  have "\<forall>i<length ps. \<exists>ev st1 vo.
          iteration_pre a (fst (ps ! i)) (fst (snd (ps ! i))) iteration (snd (snd (ps ! i)))
            = (ev, st1, Inr vo)
          \<and> outs ! i
              = iteration_body a ((fst (ps ! i))\<lparr>bcast := (\<lambda>_. stop_training_flag vo0)\<rparr>)
                  (fst (snd (ps ! i))) iteration (snd (snd (ps ! i)))"
  proof (intro allI impI)
    fix i assume i: "i < length ps"
    from isr[OF i] pre_i[OF i] obtain ev st1 vo where
      p: "iteration_pre a (fst (ps ! i)) (fst (snd (ps ! i))) iteration (snd (snd (ps ! i)))
            = (ev, st1, Inr vo)" by auto
    have "outs ! i
            = iteration_body a ((fst (ps ! i))\<lparr>bcast := (\<lambda>_. stop_training_flag vo0)\<rparr>)
                (fst (snd (ps ! i))) iteration (snd (snd (ps ! i)))"
      using i lr rec_i[OF i] by (simp add: outs split_beta)
    with p show "\<exists>ev st1 vo.
          iteration_pre a (fst (ps ! i)) (fst (snd (ps ! i))) iteration (snd (snd (ps ! i)))
            = (ev, st1, Inr vo)
          \<and> outs ! i
              = iteration_body a ((fst (ps ! i))\<lparr>bcast := (\<lambda>_. stop_training_flag vo0)\<rparr>)
                  (fst (snd (ps ! i))) iteration (snd (snd (ps ! i)))"
      by blast
  qed
  with ne lo p0 pre_i[OF z] show ?thesis by auto
qed

lemma iteration_body_bcast_at:
  "iteration_body a (env\<lparr>bcast := f\<rparr>) p iteration st
     = iteration_body a (env\<lparr>bcast := (\<lambda>_. f iteration)\<rparr>) p iteration st"
  by (simp add: iteration_body_def iteration_pre_bcast split: prod.splits sum.splits)

lemma training_loop_bcast_cong:
  "(\<forall>j\<in>set its. f j = g j) \<Longrightarrow>
     training_loop a (env\<lparr>bcast := f\<rparr>) p its st = training_loop a (env\<lparr>bcast := g\<rparr>) p its st"
proof (induction its arbitrary: st)
  case Nil
  then show ?case by simp
next
  case (Cons iteration rest)
  have b: "iteration_body a (env\<lparr>bcast := f\<rparr>) p iteration st
             = iteration_body a (env\<lparr>bcast := g\<rparr>) p iteration st"
    using Cons.prems
    by (simp add: iteration_body_bcast_at[where f = f] iteration_body_bcast_at[where f = g])
  from Cons.prems have "\<forall>j\<in>set rest. f j = g j" by simp
  from Cons.IH[OF this] b show ?case
    by (simp split: prod.splits outcome.splits)
qed

lemma lockstep_loop_length:
  "lockstep_loop a its ps = Some rs \<Longrightarrow> length rs = length ps"
proof (induction its arbitrary: ps rs)
  case Nil
  then show ?case by auto
next
  case (Cons iteration rest)
  from Cons.prems obtain outs where li: "lockstep_iteration a iteration ps = Some outs"
    by (auto split: option.splits)
  from lockstep_iteration_nth[OF li] have lo: "length outs = length ps" by simp
  show ?case
  proof (cases "list_all (\<lambda>(ev, st, oc). oc = Break) outs")
    case True
    with Cons.prems li lo show ?thesis by auto
  next
    case False
    with Cons.prems li obtain results where
      r: "lockstep_loop a rest
            (map (\<lambda>((env, p, st), (ev, st1, oc)). (env, p, st1)) (zip ps outs)) = Some results"
      and rs: "rs = map (\<lambda>((ev, st1, oc), (evs, st2, res)). (ev @ evs, st2, res))
                      (zip outs results)"
      by (auto split: option.splits if_splits)
    from Cons.IH[OF r] lo have "length results = length ps" by simp
    with rs lo show ?thesis by simp
  qed
qed

text \<open>
  The loop of the process group is, on every process, the training loop of that process
  with some broadcast: \<open>lockstep_loop\<close> adds to \<open>training_loop\<close> only the value that each
  broadcast delivers.
\<close>

lemma lockstep_loop_is_training_loop:
  "lockstep_loop a its ps = Some rs \<Longrightarrow> distinct its \<Longrightarrow>
     \<exists>f. \<forall>i<length ps.
           rs ! i = training_loop a ((fst (ps ! i))\<lparr>bcast := f\<rparr>) (fst (snd (ps ! i))) its
                      (snd (snd (ps ! i)))"
proof (induction its arbitrary: ps rs)
  case Nil
  then show ?case by (auto simp: split_beta)
next
  case (Cons iteration rest)
  from Cons.prems obtain outs where li: "lockstep_iteration a iteration ps = Some outs"
    by (auto split: option.splits)
  from lockstep_iteration_nth[OF li] obtain r where
    lo: "length outs = length ps"
    and nth: "\<forall>i<length ps.
                outs ! i = iteration_body a ((fst (ps ! i))\<lparr>bcast := (\<lambda>_. r)\<rparr>)
                             (fst (snd (ps ! i))) iteration (snd (snd (ps ! i)))"
    by blast
  show ?case
  proof (cases "list_all (\<lambda>(ev, st, oc). oc = Break) outs")
    case True
    with Cons.prems li have rs: "rs = map (\<lambda>(ev, st, oc). (ev, st, None)) outs" by simp
    have "\<forall>i<length ps.
           rs ! i = training_loop a ((fst (ps ! i))\<lparr>bcast := (\<lambda>_. r)\<rparr>) (fst (snd (ps ! i)))
                      (iteration # rest) (snd (snd (ps ! i)))"
    proof (intro allI impI)
      fix i assume i: "i < length ps"
      obtain ev st1 oc where o: "outs ! i = (ev, st1, oc)" by (metis prod_cases3)
      from True i lo o have "oc = Break"
        by (auto simp: list_all_length split_beta)
      with o nth i rs lo
      show "rs ! i = training_loop a ((fst (ps ! i))\<lparr>bcast := (\<lambda>_. r)\<rparr>) (fst (snd (ps ! i)))
                      (iteration # rest) (snd (snd (ps ! i)))"
        by simp
    qed
    then show ?thesis by blast
  next
    case False
    with Cons.prems li obtain results where
      allc: "list_all (\<lambda>(ev, st, oc). oc = Continue) outs"
      and r: "lockstep_loop a rest
            (map (\<lambda>((env, p, st), (ev, st1, oc)). (env, p, st1)) (zip ps outs)) = Some results"
      and rs: "rs = map (\<lambda>((ev, st1, oc), (evs, st2, res)). (ev @ evs, st2, res))
                      (zip outs results)"
      by (auto split: option.splits if_splits)
    from Cons.prems have d: "distinct rest" and ni: "iteration \<notin> set rest" by simp_all
    define ps' where "ps' = map (\<lambda>((env, p, st), (ev, st1, oc)). (env, p, st1)) (zip ps outs)"
    have lps': "length ps' = length ps" by (simp add: ps'_def lo)
    from lockstep_loop_length[OF r] lo have lres: "length results = length ps"
      by simp
    from Cons.IH[OF r d] obtain f where
      f: "\<forall>i<length ps.
            results ! i = training_loop a ((fst (ps' ! i))\<lparr>bcast := f\<rparr>) (fst (snd (ps' ! i)))
                            rest (snd (snd (ps' ! i)))"
      by (auto simp: ps'_def lo)
    define g where "g = f(iteration := r)"
    have "\<forall>i<length ps.
           rs ! i = training_loop a ((fst (ps ! i))\<lparr>bcast := g\<rparr>) (fst (snd (ps ! i)))
                      (iteration # rest) (snd (snd (ps ! i)))"
    proof (intro allI impI)
      fix i assume i: "i < length ps"
      obtain ev st1 oc where o: "outs ! i = (ev, st1, oc)" by (metis prod_cases3)
      from allc i lo o have oc: "oc = Continue"
        by (auto simp: list_all_length split_beta)
      have gi: "g iteration = r" by (simp add: g_def)
      have "iteration_body a ((fst (ps ! i))\<lparr>bcast := g\<rparr>) (fst (snd (ps ! i))) iteration
                    (snd (snd (ps ! i)))
              = iteration_body a ((fst (ps ! i))\<lparr>bcast := (\<lambda>_. g iteration)\<rparr>)
                  (fst (snd (ps ! i))) iteration (snd (snd (ps ! i)))"
        by (rule iteration_body_bcast_at)
      with nth i o oc gi
      have body: "iteration_body a ((fst (ps ! i))\<lparr>bcast := g\<rparr>) (fst (snd (ps ! i))) iteration
                    (snd (snd (ps ! i))) = (ev, st1, Continue)"
        by simp
      have psi: "ps' ! i = (fst (ps ! i), fst (snd (ps ! i)), st1)"
        using i lo o by (simp add: ps'_def split_beta)
      have "\<forall>j\<in>set rest. g j = f j" using ni by (auto simp: g_def)
      from training_loop_bcast_cong[OF this]
      have cg: "training_loop a ((fst (ps ! i))\<lparr>bcast := g\<rparr>) (fst (snd (ps ! i))) rest st1
                  = training_loop a ((fst (ps ! i))\<lparr>bcast := f\<rparr>) (fst (snd (ps ! i))) rest st1" .
      obtain evs st2 res where ri: "results ! i = (evs, st2, res)" by (metis prod_cases3)
      from f i psi ri have
        "training_loop a ((fst (ps ! i))\<lparr>bcast := f\<rparr>) (fst (snd (ps ! i))) rest st1
           = (evs, st2, res)" by simp
      with cg body have
        "training_loop a ((fst (ps ! i))\<lparr>bcast := g\<rparr>) (fst (snd (ps ! i)))
            (iteration # rest) (snd (snd (ps ! i))) = (ev @ evs, st2, res)"
        by simp
      moreover have "rs ! i = (ev @ evs, st2, res)"
        using rs i lo lres o ri by simp
      ultimately show "rs ! i = training_loop a ((fst (ps ! i))\<lparr>bcast := g\<rparr>) (fst (snd (ps ! i)))
                      (iteration # rest) (snd (snd (ps ! i)))"
        by simp
    qed
    then show ?thesis by blast
  qed
qed






end
